theory Spec2Isabelle
  imports Main
begin

section \<open>Python strings\<close>

text \<open>
  Strings are byte strings (\<open>char list\<close>); a text outside ASCII is its UTF-8 encoding.
  The separators the client looks for (\<open>?\<close>, \<open>&\<close>, \<open>=\<close>, \<open>:\<close>) are ASCII, so splitting
  bytes and splitting code points agree.
\<close>

text \<open>\<open>str.lower()\<close> on the ASCII letters; other bytes are left alone.\<close>

definition lower_char :: "char \<Rightarrow> char" where
  "lower_char c =
     (case map_of (zip ''ABCDEFGHIJKLMNOPQRSTUVWXYZ'' ''abcdefghijklmnopqrstuvwxyz'') c of
        Some d \<Rightarrow> d
      | None \<Rightarrow> c)"

definition lower :: "string \<Rightarrow> string" where
  "lower s = map lower_char s"

text \<open>\<open>s.startswith(p)\<close>.\<close>

definition startswith :: "string \<Rightarrow> string \<Rightarrow> bool" where
  "startswith s p = (take (length p) s = p)"

text \<open>
  \<open>s.partition(c)\<close> for a one-character separator: the text before the first \<open>c\<close> and the
  text after it; the whole string and the empty string when \<open>c\<close> does not occur.
\<close>

fun partition_chr :: "char \<Rightarrow> string \<Rightarrow> string \<times> string" where
  "partition_chr c [] = ([], [])"
| "partition_chr c (x # xs) =
     (if x = c then ([], xs)
      else (case partition_chr c xs of (a, b) \<Rightarrow> (x # a, b)))"

text \<open>\<open>s.rpartition(c)\<close> when \<open>c\<close> occurs in \<open>s\<close>: split at the last occurrence.\<close>

definition rpartition_chr :: "char \<Rightarrow> string \<Rightarrow> string \<times> string" where
  "rpartition_chr c s =
     (case partition_chr c (rev s) of (a, b) \<Rightarrow> (rev b, rev a))"

text \<open>\<open>s.split(c)\<close> for a one-character separator: always at least one piece.\<close>

fun split_chr :: "char \<Rightarrow> string \<Rightarrow> string list" where
  "split_chr c [] = [[]]"
| "split_chr c (x # xs) =
     (if x = c then [] # split_chr c xs
      else (case split_chr c xs of
              [] \<Rightarrow> [[x]]
            | p # ps \<Rightarrow> (x # p) # ps))"

text \<open>\<open>str(n)\<close> for an integer: decimal digits, with a minus sign when negative.\<close>

definition digit_char :: "nat \<Rightarrow> char" where
  "digit_char d = ''0123456789'' ! (d mod 10)"

function str_nat :: "nat \<Rightarrow> string" where
  "str_nat n = (if n < 10 then [digit_char n] else str_nat (n div 10) @ [digit_char n])"
  by pat_completeness auto
termination
  by (relation "measure id") auto

declare str_nat.simps [simp del]

definition str_int :: "int \<Rightarrow> string" where
  "str_int i = (if i < 0 then CHR ''-'' # str_nat (nat (- i)) else str_nat (nat i))"

text \<open>
  \<open>int(s)\<close> on a string: surrounding white space is dropped, one sign is allowed, and
  the rest must be a non-empty run of decimal digits; anything else raises ValueError
  (\<open>None\<close> here).
\<close>

definition is_space :: "char \<Rightarrow> bool" where
  "is_space c = (c \<in> set [CHR '' '', CHR 0x09, CHR 0x0A, CHR 0x0B, CHR 0x0C, CHR 0x0D])"

definition strip :: "string \<Rightarrow> string" where
  "strip s = rev (dropWhile is_space (rev (dropWhile is_space s)))"

definition digit_val :: "char \<Rightarrow> nat option" where
  "digit_val c = map_of (zip ''0123456789'' [0 ..< 10]) c"

fun digits_val :: "nat \<Rightarrow> string \<Rightarrow> nat option" where
  "digits_val acc [] = Some acc"
| "digits_val acc (c # cs) =
     (case digit_val c of
        None \<Rightarrow> None
      | Some d \<Rightarrow> digits_val (10 * acc + d) cs)"

definition int_of_string :: "string \<Rightarrow> int option" where
  "int_of_string s =
     (let t = strip s;
          neg = (t \<noteq> [] \<and> hd t = CHR ''-'');
          ds = (if t \<noteq> [] \<and> (hd t = CHR ''-'' \<or> hd t = CHR ''+'') then tl t else t)
      in if ds = [] then None
         else (case digits_val 0 ds of
                 None \<Rightarrow> None
               | Some n \<Rightarrow> Some (if neg then - int n else int n)))"

section \<open>Percent-encoding\<close>

text \<open>
  \<open>url_quote(s, safe)\<close> is the standard library's \<open>quote\<close>: a byte that is an ASCII
  letter, a digit, one of \<open>_ . - ~\<close> or a member of \<open>safe\<close> is kept; every other byte
  becomes \<open>%\<close> followed by its two upper-case hexadecimal digits. (Python before 3.7
  also encodes \<open>~\<close>; nothing below depends on that byte.)
\<close>

definition always_safe :: "string" where
  "always_safe =
     ''ABCDEFGHIJKLMNOPQRSTUVWXYZabcdefghijklmnopqrstuvwxyz0123456789_.-~''"

definition hex_digit :: "nat \<Rightarrow> char" where
  "hex_digit d = ''0123456789ABCDEF'' ! (d mod 16)"

definition quote_char :: "string \<Rightarrow> char \<Rightarrow> string" where
  "quote_char safe c =
     (if c \<in> set always_safe \<or> c \<in> set safe then [c]
      else [CHR ''%'', hex_digit (of_char c div 16), hex_digit (of_char c)])"

definition url_quote :: "string \<Rightarrow> string \<Rightarrow> string" where
  "url_quote s safe = concat (map (quote_char safe) s)"

text \<open>The safe set the client passes on every call: \<open>/()$=',\<close>.\<close>

definition safe_chars :: "string" where
  "safe_chars = [CHR ''/'', CHR ''('', CHR '')'', CHR ''$'', CHR ''='', CHR 0x27, CHR '','']"

section \<open>Requests\<close>

text \<open>
  A request as the client reads and rewrites it (\<open>req_method\<close> is the field
  \<open>method\<close>). A query value may be \<open>None\<close>; a header value may be \<open>None\<close> or empty
  (both falsy); the host becomes \<open>None\<close> when a redirect target has no host.
\<close>

record request =
  req_method :: string
  host :: "string option"
  path :: string
  query :: "(string \<times> string option) list"
  headers :: "(string \<times> string option) list"
  body :: "string option"
  protocol_override :: "string option"

text \<open>Truthiness of an optional string: \<open>None\<close> and the empty string are falsy.\<close>

definition truthy :: "string option \<Rightarrow> bool" where
  "truthy v = (case v of None \<Rightarrow> False | Some s \<Rightarrow> s \<noteq> [])"

section \<open>Query normalizer\<close>

text \<open>
  The pairs of an inline query string: split on \<open>&\<close>, keep the pieces that contain
  \<open>=\<close>, and split each at its first \<open>=\<close>.
\<close>

definition inline_pairs :: "string \<Rightarrow> (string \<times> string option) list" where
  "inline_pairs query_string =
     map (\<lambda>q. case partition_chr CHR ''='' q of (name, v) \<Rightarrow> (name, Some v))
       (filter (\<lambda>q. CHR ''='' \<in> set q) (split_chr CHR ''&'' query_string))"

text \<open>The loop that appends \<open>name=quote(value)&\<close> for every pair whose value is not \<open>None\<close>.\<close>

fun append_queries :: "string \<Rightarrow> (string \<times> string option) list \<Rightarrow> string" where
  "append_queries p [] = p"
| "append_queries p ((name, None) # qs) = append_queries p qs"
| "append_queries p ((name, Some v) # qs) =
     append_queries (p @ name @ ''='' @ url_quote v safe_chars @ ''&'') qs"

text \<open>
  \<open>_update_request_uri_query\<close>: returns the request with its path and query rewritten
  (the source mutates the request and returns the two fields).
\<close>

definition update_request_uri_query :: "request \<Rightarrow> request" where
  "update_request_uri_query r =
     (let r1 = (if CHR ''?'' \<in> set (path r)
                then (case partition_chr CHR ''?'' (path r) of
                        (p, query_string) \<Rightarrow>
                          r\<lparr>path := p,
                            query := (if query_string \<noteq> []
                                      then query r @ inline_pairs query_string
                                      else query r)\<rparr>)
                else r);
          r2 = r1\<lparr>path := url_quote (path r1) safe_chars\<rparr>
      in if query r2 \<noteq> []
         then r2\<lparr>path := butlast (append_queries (path r2 @ ''?'') (query r2))\<rparr>
         else r2)"

text \<open>What one pair adds to the path: nothing when its value is \<open>None\<close>.\<close>

fun render_pair :: "string \<times> string option \<Rightarrow> string" where
  "render_pair (name, None) = []"
| "render_pair (name, Some v) = name @ ''='' @ url_quote v safe_chars @ ''&''"

text \<open>
  The specification's wording of the merge, for comparison with the code. First reading:
  every pair is percent-encoded, name and value alike, explicit pairs first.
\<close>

definition spec_render_pair :: "string \<times> string option \<Rightarrow> string" where
  "spec_render_pair q =
     (case q of
        (name, None) \<Rightarrow> []
      | (name, Some v) \<Rightarrow> url_quote name safe_chars @ ''='' @ url_quote v safe_chars @ ''&'')"

definition spec_encoded_path ::
  "string \<Rightarrow> (string \<times> string option) list \<Rightarrow> (string \<times> string option) list \<Rightarrow> string"
where
  "spec_encoded_path p explicit inline =
     butlast (url_quote p safe_chars @ ''?'' @ concat (map spec_render_pair (explicit @ inline)))"

text \<open>
  Second reading, the data model's invariant: the parameters that were in the path come
  before the explicit ones.
\<close>

definition spec_path_first ::
  "string \<Rightarrow> (string \<times> string option) list \<Rightarrow> (string \<times> string option) list \<Rightarrow> string"
where
  "spec_path_first p explicit inline =
     butlast (url_quote p safe_chars @ ''?'' @ concat (map render_pair (inline @ explicit)))"

section \<open>Client configuration and connections\<close>

text \<open>
  The session handle is opaque; a session object is always truthy, so the tests
  \<open>if self.request_session\<close> and \<open>self.request_session is None\<close> are complementary.
\<close>

datatype session = Session

text \<open>A port is an integer (the library constants, a configured port) or text cut out of a host.\<close>

datatype port_val = PInt int | PStr string

record client =
  cert_file :: "string option"
  protocol :: string
  proxy_host :: "string option"
  proxy_port :: "port_val option"
  proxy_user :: "string option"
  proxy_password :: "string option"
  request_session :: "session option"
  timeout :: nat
  user_agent :: string
  use_httplib :: bool

text \<open>
  Modelled from the spec: the class \<open>HTTPError\<close> is imported from the package and is not
  in this module; the data model gives its fields as status, message, the header pairs
  and the body. The other errors are the interpreter's own, and the failure of a
  transport.
\<close>

datatype error =
    TypeError
  | ValueError
  | KeyError
  | TransportError
  | HTTPError int string "(string \<times> string) list" "string option"

definition HTTP_PORT :: int where
  "HTTP_PORT = 80"

definition HTTPS_PORT :: int where
  "HTTPS_PORT = 443"

text \<open>\<open>int(port)\<close>: \<open>None\<close> raises TypeError, text that is not a number raises ValueError.\<close>

definition py_int :: "port_val option \<Rightarrow> error + int" where
  "py_int p =
     (case p of
        None \<Rightarrow> Inl TypeError
      | Some (PInt i) \<Rightarrow> Inr i
      | Some (PStr s) \<Rightarrow>
          (case int_of_string s of None \<Rightarrow> Inl ValueError | Some i \<Rightarrow> Inr i))"

text \<open>
  The protocol both \<open>get_uri\<close> and \<open>get_connection\<close> compute first: the request's override
  when it is truthy, the client's protocol otherwise, in lower case.
\<close>

definition effective_protocol :: "client \<Rightarrow> request \<Rightarrow> string" where
  "effective_protocol cl r =
     lower (if truthy (protocol_override r)
            then (case protocol_override r of Some p \<Rightarrow> p | None \<Rightarrow> protocol cl)
            else protocol cl)"

definition get_uri :: "client \<Rightarrow> request \<Rightarrow> error + string" where
  "get_uri cl r =
     (let protocol = effective_protocol cl r;
          port = (if protocol = ''http'' then HTTP_PORT else HTTPS_PORT)
      in case host r of
           None \<Rightarrow> Inl TypeError
         | Some h \<Rightarrow> Inr (protocol @ ''://'' @ h @ '':'' @ str_int port @ path r))"

text \<open>
  A connection is described by what the client gave its constructor and what it has
  written to it since. \<open>conn_port\<close> is set for the two socket-based classes only,
  \<open>conn_protocol\<close> for the session-backed and the platform-native classes only. The
  tunnel holds \<open>set_tunnel\<close>'s host and port, and the user and password whose Base64 form
  is the \<open>Proxy-Authorization: Basic\<close> header (kept unencoded here). \<open>buffer\<close> is the
  list of header lines not yet transmitted (\<open>_buffer\<close>), \<open>sent\<close> the lines transmitted by
  \<open>endheaders\<close>, \<open>sends\<close> the arguments of the calls of \<open>send\<close>.
\<close>

text \<open>
  Modelled from the spec: the session-backed and the platform-native connection classes
  (\<open>_RequestsConnection\<close>, and \<open>_HTTPConnection\<close> of the \<open>winhttp\<close> module) are imported
  from sibling modules that are not in this module; with the two library classes they
  are the variants of one connection capability (request line, headers, body, response,
  tunnel, proxy credentials, close), so a connection records its class and what it was
  constructed with and given.
\<close>

datatype conn_kind = RequestsConnection | WinHTTPConnection | HTTPConnection | HTTPSConnection

record connection =
  kind :: conn_kind
  conn_host :: "string option"
  conn_port :: "int option"
  conn_protocol :: "string option"
  conn_cert_file :: "string option"
  conn_timeout :: nat
  tunnel :: "(string \<times> int \<times> (string \<times> string) option) option"
  proxy_credentials :: "(string option \<times> string option) option"
  buffer :: "string list"
  sent :: "string list"
  sends :: "string option list"

definition new_connection ::
  "conn_kind \<Rightarrow> string option \<Rightarrow> int option \<Rightarrow> string option \<Rightarrow> string option \<Rightarrow> nat \<Rightarrow> connection"
where
  "new_connection k h p pr cf t =
     \<lparr>kind = k, conn_host = h, conn_port = p, conn_protocol = pr, conn_cert_file = cf,
      conn_timeout = t, tunnel = None, proxy_credentials = None,
      buffer = [], sent = [], sends = []\<rparr>"

text \<open>
  The first part of \<open>get_connection\<close>: the connection object, and the values of the
  local variables \<open>proxy_host\<close> and \<open>proxy_port\<close> that \<open>set_tunnel\<close> receives afterwards
  (in the socket-based branch they are bound only when a proxy is configured, which is
  the only case in which they are read).
\<close>

definition make_connection ::
  "client \<Rightarrow> request \<Rightarrow> error + (connection \<times> string option \<times> port_val option)"
where
  "make_connection cl r =
     (let protocol = effective_protocol cl r;
          target_host = host r;
          target_port = PInt (if protocol = ''http'' then HTTP_PORT else HTTPS_PORT)
      in if request_session cl \<noteq> None then
           Inr (new_connection RequestsConnection target_host None (Some protocol) None (timeout cl),
                proxy_host cl, proxy_port cl)
         else if \<not> use_httplib cl then
           Inr (new_connection WinHTTPConnection target_host None (Some protocol) (cert_file cl)
                  (timeout cl),
                proxy_host cl, proxy_port cl)
         else
           (case target_host of
              None \<Rightarrow> Inl TypeError
            | Some h \<Rightarrow>
                (let (target_host', target_port') =
                       (if CHR '':'' \<in> set h
                        then (case rpartition_chr CHR '':'' h of (a, b) \<Rightarrow> (a, PStr b))
                        else (h, target_port));
                     (ph, pp, hst, prt) =
                       (if truthy (proxy_host cl)
                        then (Some target_host', Some target_port', proxy_host cl, proxy_port cl)
                        else (None, None, Some target_host', Some target_port'))
                 in case py_int prt of
                      Inl e \<Rightarrow> Inl e
                    | Inr p \<Rightarrow>
                        if lower protocol = ''http''
                        then Inr (new_connection HTTPConnection hst (Some p) None None (timeout cl),
                                  ph, pp)
                        else Inr (new_connection HTTPSConnection hst (Some p) None (cert_file cl)
                                    (timeout cl),
                                  ph, pp))))"

definition get_connection :: "client \<Rightarrow> request \<Rightarrow> error + connection" where
  "get_connection cl r =
     (case make_connection cl r of
        Inl e \<Rightarrow> Inl e
      | Inr (connection, ph, pp) \<Rightarrow>
          if truthy (proxy_host cl) then
            (let hdrs = (if truthy (proxy_user cl) \<and> truthy (proxy_password cl)
                         then (case (proxy_user cl, proxy_password cl) of
                                 (Some u, Some pw) \<Rightarrow> Some (u, pw)
                               | _ \<Rightarrow> None)
                         else None)
             in case py_int pp of
                  Inl e \<Rightarrow> Inl e
                | Inr p \<Rightarrow>
                    (case ph of
                       None \<Rightarrow> Inl TypeError
                     | Some h \<Rightarrow> Inr (connection\<lparr>tunnel := Some (h, p, hdrs)\<rparr>)))
          else Inr connection)"

section \<open>Sending a request\<close>

text \<open>\<open>putheader\<close> adds the line \<open>name: value\<close> to the buffer.\<close>

definition header_line :: "string \<Rightarrow> string \<Rightarrow> string" where
  "header_line name v = name @ '': '' @ v"

definition putheader :: "connection \<Rightarrow> string \<Rightarrow> string \<Rightarrow> connection" where
  "putheader c name v = c\<lparr>buffer := buffer c @ [header_line name v]\<rparr>"

text \<open>\<open>endheaders\<close> transmits the buffered lines and empties the buffer.\<close>

definition endheaders :: "connection \<Rightarrow> connection" where
  "endheaders c = c\<lparr>sent := sent c @ buffer c, buffer := []\<rparr>"

definition send :: "connection \<Rightarrow> string option \<Rightarrow> connection" where
  "send c b = c\<lparr>sends := sends c @ [b]\<rparr>"

definition is_host_line :: "string \<Rightarrow> bool" where
  "is_host_line l = startswith l ''Host: ''"

text \<open>
  A Host header in the sense of HTTP, where header names are not case-sensitive; every
  line that the test above accepts is one.
\<close>

definition is_host_header :: "string \<Rightarrow> bool" where
  "is_host_header l = startswith (lower l) ''host:''"

text \<open>
  The loop \<open>for i in connection._buffer: if i.startswith(b"Host: "): connection._buffer.remove(i)\<close>.
  The iterator is an index into the list being changed: \<open>remove\<close> deletes the first
  element equal to \<open>i\<close>, the list gets shorter, and the index still moves on by one.
\<close>

function remove_host_lines :: "nat \<Rightarrow> string list \<Rightarrow> string list" where
  "remove_host_lines k buf =
     (if k < length buf
      then (if is_host_line (buf ! k)
            then remove_host_lines (Suc k) (remove1 (buf ! k) buf)
            else remove_host_lines (Suc k) buf)
      else buf)"
  by pat_completeness auto
termination
  by (relation "measure (\<lambda>(k, buf). length buf - k)") (auto simp: length_remove1)

declare remove_host_lines.simps [simp del]

text \<open>
  \<open>"{0}:{1}".format(connection._tunnel_host, connection._tunnel_port)\<close>; both attributes
  are \<open>None\<close> on a connection without a tunnel.
\<close>

definition tunnel_target :: "connection \<Rightarrow> string" where
  "tunnel_target c =
     (case tunnel c of
        None \<Rightarrow> ''None:None''
      | Some (h, p, _) \<Rightarrow> h @ '':'' @ str_int p)"

fun put_request_headers :: "connection \<Rightarrow> (string \<times> string option) list \<Rightarrow> connection" where
  "put_request_headers c [] = c"
| "put_request_headers c ((name, v) # hs) =
     (case v of
        None \<Rightarrow> put_request_headers c hs
      | Some s \<Rightarrow>
          if s \<noteq> [] then put_request_headers (putheader c name s) hs
          else put_request_headers c hs)"

definition send_request_headers ::
  "client \<Rightarrow> connection \<Rightarrow> (string \<times> string option) list \<Rightarrow> connection"
where
  "send_request_headers cl connection request_headers =
     (let c1 = (if use_httplib cl \<and> truthy (proxy_host cl) \<and> request_session cl = None
                then putheader
                       (connection\<lparr>buffer := remove_host_lines 0 (buffer connection)\<rparr>)
                       ''Host'' (tunnel_target connection)
                else connection);
          c2 = put_request_headers c1 request_headers;
          c3 = putheader c2 ''User-Agent'' (user_agent cl)
      in endheaders c3)"

definition send_request_body :: "connection \<Rightarrow> string option \<Rightarrow> connection" where
  "send_request_body connection request_body =
     (if truthy request_body then send connection request_body
      else if kind connection \<noteq> HTTPSConnection \<and> kind connection \<noteq> HTTPConnection
      then send connection None
      else connection)"

text \<open>The lines that the loop over the request headers adds to the buffer.\<close>

fun request_header_lines :: "(string \<times> string option) list \<Rightarrow> string list" where
  "request_header_lines [] = []"
| "request_header_lines ((name, None) # hs) = request_header_lines hs"
| "request_header_lines ((name, Some s) # hs) =
     (if s \<noteq> [] then header_line name s # request_header_lines hs
      else request_header_lines hs)"

section \<open>Responses and the transport\<close>

text \<open>
  What \<open>getresponse\<close> hands back: status, reason, header pairs, the declared length
  (\<open>None\<close> when the response declares none) and the bytes the stream still holds.
  \<open>read()\<close> returns the whole stream, \<open>read(n)\<close> its first \<open>n\<close> bytes.
\<close>

record raw_response =
  raw_status :: int
  raw_reason :: string
  raw_headers :: "(string \<times> string) list"
  raw_length :: "int option"
  raw_stream :: string

text \<open>
  Modelled from the spec: the class \<open>HTTPResponse\<close> is imported from the package and is
  not in this module; the data model gives its fields as an integer status, a reason
  string, the header pairs and a body that may be absent.
\<close>

record response =
  status :: int
  message :: string
  resp_headers :: "(string \<times> string) list"
  resp_body :: "string option"

text \<open>
  The parts of the run that are not the client's own code: \<open>urlparse\<close> (the \<open>hostname\<close>
  and \<open>path\<close> of a URL; the host name is \<open>None\<close> for a URL without one), the lines that
  the connection's \<open>putrequest\<close> buffers for a method and a path, and the server's answer
  to the \<open>n\<close>-th connection of the run, given everything the client wrote to it. The
  answer \<open>None\<close> stands for a failure raised by the transport while the request is written
  or the response is read.
\<close>

record transport =
  urlparse :: "string \<Rightarrow> string option \<times> string"
  putrequest_lines :: "connection \<Rightarrow> string \<Rightarrow> string \<Rightarrow> string list"
  getresponse :: "nat \<Rightarrow> connection \<Rightarrow> raw_response option"

definition putrequest :: "transport \<Rightarrow> connection \<Rightarrow> string \<Rightarrow> string \<Rightarrow> connection" where
  "putrequest tr c m p = c\<lparr>buffer := buffer c @ putrequest_lines tr c m p\<rparr>"

definition set_proxy_credentials ::
  "connection \<Rightarrow> string option \<Rightarrow> string option \<Rightarrow> connection"
where
  "set_proxy_credentials c u pw = c\<lparr>proxy_credentials := Some (u, pw)\<rparr>"

text \<open>The header names in lower case, values and order unchanged.\<close>

definition lower_names :: "(string \<times> string) list \<Rightarrow> (string \<times> string) list" where
  "lower_names hs = map (\<lambda>value. (lower (fst value), snd value)) hs"

text \<open>The body: lines 262 to 266 of the source.\<close>

definition read_body :: "raw_response \<Rightarrow> string option" where
  "read_body resp =
     (case raw_length resp of
        None \<Rightarrow> Some (raw_stream resp)
      | Some n \<Rightarrow> if n > 0 then Some (take (nat n) (raw_stream resp)) else None)"

text \<open>\<open>dict(respheaders)[key]\<close>: the last pair with that name wins; \<open>None\<close> is KeyError.\<close>

definition dict_get :: "(string \<times> string) list \<Rightarrow> string \<Rightarrow> string option" where
  "dict_get hs k = map_of (rev hs) k"

section \<open>The request execution loop\<close>

text \<open>
  The run is observed through a trace of the connections opened and closed; connections
  are numbered in the order in which \<open>get_connection\<close> creates them. \<open>bodies\<close> records,
  for each connection whose response was read, the value of the local \<open>respbody\<close>.
\<close>

datatype event = Open nat | Close nat

record world =
  trace :: "event list"
  next_conn :: nat
  bodies :: "(nat \<times> string option) list"

definition log_event :: "event \<Rightarrow> world \<Rightarrow> world" where
  "log_event e w = w\<lparr>trace := trace w @ [e]\<rparr>"

definition log_body :: "nat \<Rightarrow> string option \<Rightarrow> world \<Rightarrow> world" where
  "log_body cid b w = w\<lparr>bodies := bodies w @ [(cid, b)]\<rparr>"

definition open_conn :: "world \<Rightarrow> world" where
  "open_conn w = (log_event (Open (next_conn w)) w)\<lparr>next_conn := Suc (next_conn w)\<rparr>"

type_synonym outcome = "(error + response) \<times> request \<times> world"

text \<open>The \<open>finally\<close> clause: whatever the \<open>try\<close> block produced, the connection is closed.\<close>

definition finally_close :: "nat \<Rightarrow> outcome option \<Rightarrow> outcome option" where
  "finally_close cid r =
     (case r of
        None \<Rightarrow> None
      | Some (res, rq, w) \<Rightarrow> Some (res, rq, log_event (Close cid) w))"

text \<open>The request line, the headers and the body, written to a fresh connection.\<close>

definition write_request :: "client \<Rightarrow> transport \<Rightarrow> request \<Rightarrow> connection \<Rightarrow> connection" where
  "write_request cl tr request connection =
     (let c1 = putrequest tr connection (req_method request) (path request);
          c2 = (if \<not> use_httplib cl \<and> truthy (proxy_host cl) \<and> truthy (proxy_user cl)
                then set_proxy_credentials c1 (proxy_user cl) (proxy_password cl)
                else c1);
          c3 = send_request_headers cl c2 (headers request)
      in send_request_body c3 (body request))"

text \<open>
  The redirect target: host and path of the parsed location, then the query normalizer.
\<close>

definition redirect_request :: "transport \<Rightarrow> string \<Rightarrow> request \<Rightarrow> request" where
  "redirect_request tr location request =
     (case urlparse tr location of
        (hostname, p) \<Rightarrow> update_request_uri_query (request\<lparr>host := hostname, path := p\<rparr>))"

text \<open>
  \<open>perform_request\<close>. The recursion on a 307 has no bound in the source (the depth
  limit of the interpreter is not modelled), so the function takes fuel: the number of
  hops it may make. \<open>None\<close> means that the fuel ran out, that is, that the call has not
  returned after that many hops. The recursive call sits inside the \<open>try\<close> block, so
  \<open>finally_close\<close> wraps it.
\<close>

fun perform_request ::
  "nat \<Rightarrow> client \<Rightarrow> transport \<Rightarrow> request \<Rightarrow> world \<Rightarrow> outcome option"
where
  "perform_request 0 cl tr request w = None"
| "perform_request (Suc n) cl tr request w =
     (case get_connection cl request of
        Inl e \<Rightarrow> Some (Inl e, request, w)
      | Inr connection \<Rightarrow>
          (let cid = next_conn w;
               w1 = open_conn w
           in finally_close cid
                (case getresponse tr cid (write_request cl tr request connection) of
                   None \<Rightarrow> Some (Inl TransportError, request, w1)
                 | Some resp \<Rightarrow>
                     (let status = raw_status resp;
                          message = raw_reason resp;
                          respheaders = lower_names (raw_headers resp);
                          respbody = read_body resp;
                          w2 = log_body cid respbody w1;
                          response = \<lparr>status = status, message = raw_reason resp,
                                      resp_headers = respheaders, resp_body = respbody\<rparr>
                      in if status = 307 then
                           (case dict_get respheaders ''location'' of
                              None \<Rightarrow> Some (Inl KeyError, request, w2)
                            | Some location \<Rightarrow>
                                perform_request n cl tr (redirect_request tr location request) w2)
                         else if status \<ge> 300 then
                           Some (Inl (HTTPError status message respheaders respbody), request, w2)
                         else Some (Inr response, request, w2)))))"

text \<open>
  The chain of redirects that starts with this request, on connection number \<open>c\<close>, ends
  within \<open>n\<close> hops: one of them cannot get a connection, gets no answer, or gets an answer
  that is not a 307 with a location. This is a statement about the configuration and
  the server only; nothing in it opens or closes a connection.
\<close>

fun chain_ends :: "nat \<Rightarrow> client \<Rightarrow> transport \<Rightarrow> request \<Rightarrow> nat \<Rightarrow> bool" where
  "chain_ends 0 cl tr request c = False"
| "chain_ends (Suc n) cl tr request c =
     (case get_connection cl request of
        Inl e \<Rightarrow> True
      | Inr connection \<Rightarrow>
          (case getresponse tr c (write_request cl tr request connection) of
             None \<Rightarrow> True
           | Some resp \<Rightarrow>
               if raw_status resp = 307 then
                 (case dict_get (lower_names (raw_headers resp)) ''location'' of
                    None \<Rightarrow> True
                  | Some location \<Rightarrow>
                      chain_ends n cl tr (redirect_request tr location request) (Suc c))
               else True))"

text \<open>
  The events of a run of \<open>k\<close> hops that starts with connection number \<open>c\<close>: every hop
  opens its connection, and the connections are closed in the reverse order.
\<close>

definition hop_trace :: "nat \<Rightarrow> nat \<Rightarrow> event list" where
  "hop_trace c k = map Open [c ..< c + k] @ map Close (rev [c ..< c + k])"

text \<open>\<open>precedes a b t\<close>: event \<open>a\<close> occurs in \<open>t\<close>, and \<open>b\<close> occurs after its first occurrence.\<close>

definition precedes :: "event \<Rightarrow> event \<Rightarrow> event list \<Rightarrow> bool" where
  "precedes a b t = (b \<in> set (dropWhile (\<lambda>e. e \<noteq> a) t))"

text \<open>The body that an outcome carries: a response and an HTTPError have one.\<close>

fun outcome_body :: "error + response \<Rightarrow> string option option" where
  "outcome_body (Inr r) = Some (resp_body r)"
| "outcome_body (Inl (HTTPError st msg hs b)) = Some b"
| "outcome_body (Inl e) = None"

section \<open>A small server for concrete runs\<close>

text \<open>
  A parser for URLs of the shape \<open>scheme://host[:port][/path][?query][#fragment]\<close>, the
  only shape the runs below contain: the host name is the part of the authority before
  \<open>:\<close>, in lower case, and the path ends at the first \<open>?\<close>, \<open>#\<close> or \<open>;\<close>. A text without
  \<open>://\<close> has no host name.
\<close>

definition demo_urlparse :: "string \<Rightarrow> string option \<times> string" where
  "demo_urlparse u =
     (case partition_chr CHR '':'' u of
        (scheme, rest) \<Rightarrow>
          if startswith rest ''//'' then
            (let after = drop 2 rest;
                 netloc = takeWhile (\<lambda>c. c \<notin> set ''/?#'') after;
                 p = takeWhile (\<lambda>c. c \<notin> set ''?#;'') (dropWhile (\<lambda>c. c \<notin> set ''/?#'') after);
                 h = lower (fst (partition_chr CHR '':'' netloc))
             in (if h = [] then None else Some h, p))
          else (None, takeWhile (\<lambda>c. c \<notin> set ''?#;'') u))"

text \<open>
  The server: \<open>host1\<close> redirects to \<open>https://host2/newpath\<close>, \<open>host2\<close> answers 200 with a
  body and no declared length, \<open>host3\<close> answers 404 with a declared length of 3, \<open>host4\<close>
  answers 204 with a declared length of 0, \<open>host6\<close> answers 200 with a declared length
  of 5 and a stream that ends after 2 bytes, and any other host is unreachable.
\<close>

definition demo_redirect :: raw_response where
  "demo_redirect =
     \<lparr>raw_status = 307, raw_reason = ''Temporary Redirect'',
      raw_headers = [(''Location'', ''https://host2/newpath'')],
      raw_length = Some 0, raw_stream = []\<rparr>"

definition demo_ok :: raw_response where
  "demo_ok =
     \<lparr>raw_status = 200, raw_reason = ''OK'',
      raw_headers = [(''Content-Type'', ''text/plain''), (''X-Ms-Id'', ''A1'')],
      raw_length = None, raw_stream = ''hello''\<rparr>"

definition demo_not_found :: raw_response where
  "demo_not_found =
     \<lparr>raw_status = 404, raw_reason = ''Not Found'',
      raw_headers = [(''Content-Length'', ''3'')],
      raw_length = Some 3, raw_stream = ''gone''\<rparr>"

definition demo_no_content :: raw_response where
  "demo_no_content =
     \<lparr>raw_status = 204, raw_reason = ''No Content'', raw_headers = [],
      raw_length = Some 0, raw_stream = []\<rparr>"

definition demo_short :: raw_response where
  "demo_short =
     \<lparr>raw_status = 200, raw_reason = ''OK'', raw_headers = [(''Content-Length'', ''5'')],
      raw_length = Some 5, raw_stream = ''ab''\<rparr>"

definition demo_getresponse :: "nat \<Rightarrow> connection \<Rightarrow> raw_response option" where
  "demo_getresponse cid c =
     (if conn_host c = Some ''host1'' then Some demo_redirect
      else if conn_host c = Some ''host2'' then Some demo_ok
      else if conn_host c = Some ''host3'' then Some demo_not_found
      else if conn_host c = Some ''host4'' then Some demo_no_content
      else if conn_host c = Some ''host6'' then Some demo_short
      else None)"

definition demo_transport :: transport where
  "demo_transport =
     \<lparr>urlparse = demo_urlparse,
      putrequest_lines = (\<lambda>c m p. [m @ '' '' @ p @ '' HTTP/1.1'']),
      getresponse = demo_getresponse\<rparr>"

definition demo_client :: client where
  "demo_client =
     \<lparr>cert_file = None, protocol = ''https'', proxy_host = None, proxy_port = None,
      proxy_user = None, proxy_password = None, request_session = None, timeout = 65,
      user_agent = ''agent'', use_httplib = True\<rparr>"

definition demo_request :: "string \<Rightarrow> request" where
  "demo_request h =
     \<lparr>req_method = ''GET'', host = Some h, path = ''/a'', query = [(''y'', Some ''2'')],
      headers = [(''x-ms-version'', Some ''2014-10-01'')], body = None,
      protocol_override = None\<rparr>"

definition demo_connection :: "string \<Rightarrow> connection" where
  "demo_connection h = new_connection HTTPSConnection (Some h) (Some 443) None None 65"

definition demo_world :: world where
  "demo_world = \<lparr>trace = [], next_conn = 0, bodies = []\<rparr>"

text \<open>A request with a given path and query list, for the query normalizer.\<close>

definition merge_request :: "string \<Rightarrow> (string \<times> string option) list \<Rightarrow> request" where
  "merge_request p q = (demo_request ''host1'')\<lparr>path := p, query := q\<rparr>"

text \<open>
  A client behind a proxy, and its connection after \<open>putrequest\<close>: the library has
  buffered the request line, a default Host header and one more header.
\<close>

definition proxy_client :: client where
  "proxy_client = demo_client\<lparr>proxy_host := Some ''proxy'', proxy_port := Some (PInt 3128)\<rparr>"

definition tunnel_connection :: connection where
  "tunnel_connection =
     (new_connection HTTPSConnection (Some ''proxy'') (Some 3128) None None 65)
       \<lparr>tunnel := Some (''host2'', 443, None),
        buffer := [''GET /a HTTP/1.1'', ''Host: proxy:3128'', ''Accept-Encoding: identity'']\<rparr>"

text \<open>
  Clients with other protocols, one on the platform-native transport and one with a
  session.
\<close>

definition ftp_client :: client where
  "ftp_client = demo_client\<lparr>protocol := ''FTP''\<rparr>"

definition http_client :: client where
  "http_client = demo_client\<lparr>protocol := ''HTTP''\<rparr>"

definition native_client :: client where
  "native_client = demo_client\<lparr>protocol := ''ftp'', use_httplib := False\<rparr>"

definition session_client :: client where
  "session_client = demo_client\<lparr>protocol := ''ftp'', request_session := Some Session\<rparr>"

section \<open>One hop of the loop\<close>


text \<open>What \<open>perform_request\<close> does once the connection exists and the server has answered.\<close>

lemma perform_request_answered:
  assumes "get_connection cl request = Inr connection"
    and "getresponse tr (next_conn w) (write_request cl tr request connection) = Some resp"
  shows "perform_request (Suc n) cl tr request w =
     finally_close (next_conn w)
       (if raw_status resp = 307 then
          (case dict_get (lower_names (raw_headers resp)) ''location'' of
             None \<Rightarrow> Some (Inl KeyError, request,
                            log_body (next_conn w) (read_body resp) (open_conn w))
           | Some location \<Rightarrow>
               perform_request n cl tr (redirect_request tr location request)
                 (log_body (next_conn w) (read_body resp) (open_conn w)))
        else if raw_status resp \<ge> 300 then
          Some (Inl (HTTPError (raw_status resp) (raw_reason resp)
                       (lower_names (raw_headers resp)) (read_body resp)),
                request, log_body (next_conn w) (read_body resp) (open_conn w))
        else Some (Inr \<lparr>status = raw_status resp, message = raw_reason resp,
                         resp_headers = lower_names (raw_headers resp),
                         resp_body = read_body resp\<rparr>,
                   request, log_body (next_conn w) (read_body resp) (open_conn w)))"
  using assms by (simp add: Let_def)



section \<open>Success, failure and redirect\<close>

text \<open>
  Claim C1. When the server answers with a status in [200, 300), \<open>perform_request\<close>
  returns a response with the transport's status and reason, with the transport's header
  pairs in their order, each name in lower case and each value unchanged, and with the
  body read from the transport. The request is unchanged, and the connection has been
  opened and closed.
\<close>

theorem perform_request_success:
  assumes "get_connection cl request = Inr connection"
    and "getresponse tr (next_conn w) (write_request cl tr request connection) = Some resp"
    and "200 \<le> raw_status resp" and "raw_status resp < 300"
  shows "perform_request (Suc n) cl tr request w =
           Some (Inr \<lparr>status = raw_status resp, message = raw_reason resp,
                       resp_headers = map (\<lambda>(name, v). (lower name, v)) (raw_headers resp),
                       resp_body = read_body resp\<rparr>,
                 request,
                 log_event (Close (next_conn w))
                   (log_body (next_conn w) (read_body resp) (open_conn w)))"
  unfolding perform_request_answered [OF assms(1,2)] using assms(3,4)
  by (simp add: finally_close_def lower_names_def case_prod_beta)

theorem perform_request_success_witness:
  "get_connection demo_client (demo_request ''host2'') = Inr (demo_connection ''host2'')
   \<and> getresponse demo_transport (next_conn demo_world)
         (write_request demo_client demo_transport (demo_request ''host2'')
            (demo_connection ''host2'')) = Some demo_ok
   \<and> 200 \<le> raw_status demo_ok \<and> raw_status demo_ok < 300
   \<and> perform_request (Suc 0) demo_client demo_transport (demo_request ''host2'') demo_world =
       Some (Inr \<lparr>status = 200, message = ''OK'',
                   resp_headers = [(''content-type'', ''text/plain''), (''x-ms-id'', ''A1'')],
                   resp_body = Some ''hello''\<rparr>,
             demo_request ''host2'',
             \<lparr>trace = [Open 0, Close 0], next_conn = 1, bodies = [(0, Some ''hello'')]\<rparr>)"
proof -
  have gc: "get_connection demo_client (demo_request ''host2'') = Inr (demo_connection ''host2'')"
    by code_simp
  have gr: "getresponse demo_transport (next_conn demo_world)
         (write_request demo_client demo_transport (demo_request ''host2'')
            (demo_connection ''host2'')) = Some demo_ok"
    by code_simp
  have lo: "200 \<le> raw_status demo_ok" and hi: "raw_status demo_ok < 300"
    by (simp_all add: demo_ok_def)
  show ?thesis
    using gc gr lo hi perform_request_success [OF gc gr lo hi, of 0]
    by (simp add: demo_ok_def read_body_def lower_def lower_char_def log_event_def
        log_body_def open_conn_def demo_world_def)
qed

text \<open>
  Claim C2. When the server answers with a status of 300 or more other than 307,
  \<open>perform_request\<close> fails with an HTTPError that carries the status, the reason, the
  header pairs (names in lower case) and the body of that answer. There is no retry:
  whatever the number of hops allowed, the run opens this one connection, closes it,
  and leaves the request as it was.
\<close>

theorem perform_request_http_error:
  assumes "get_connection cl request = Inr connection"
    and "getresponse tr (next_conn w) (write_request cl tr request connection) = Some resp"
    and "300 \<le> raw_status resp" and "raw_status resp \<noteq> 307"
  shows "\<exists>w'. perform_request (Suc n) cl tr request w =
           Some (Inl (HTTPError (raw_status resp) (raw_reason resp)
                        (map (\<lambda>(name, v). (lower name, v)) (raw_headers resp))
                        (read_body resp)),
                 request, w')
         \<and> trace w' = trace w @ [Open (next_conn w), Close (next_conn w)]
         \<and> next_conn w' = Suc (next_conn w)"
  unfolding perform_request_answered [OF assms(1,2)] using assms(3,4)
  by (simp add: finally_close_def lower_names_def case_prod_beta log_event_def log_body_def
      open_conn_def)

theorem perform_request_http_error_witness:
  "get_connection demo_client (demo_request ''host3'') = Inr (demo_connection ''host3'')
   \<and> getresponse demo_transport (next_conn demo_world)
         (write_request demo_client demo_transport (demo_request ''host3'')
            (demo_connection ''host3'')) = Some demo_not_found
   \<and> 300 \<le> raw_status demo_not_found \<and> raw_status demo_not_found \<noteq> 307
   \<and> (\<exists>w'. perform_request (Suc 4) demo_client demo_transport (demo_request ''host3'')
              demo_world =
            Some (Inl (HTTPError 404 ''Not Found'' [(''content-length'', ''3'')] (Some ''gon'')),
                  demo_request ''host3'', w')
          \<and> trace w' = [Open 0, Close 0] \<and> next_conn w' = 1)"
proof -
  have gc: "get_connection demo_client (demo_request ''host3'') = Inr (demo_connection ''host3'')"
    by code_simp
  have gr: "getresponse demo_transport (next_conn demo_world)
         (write_request demo_client demo_transport (demo_request ''host3'')
            (demo_connection ''host3'')) = Some demo_not_found"
    by code_simp
  have lo: "300 \<le> raw_status demo_not_found" and ne: "raw_status demo_not_found \<noteq> 307"
    by (simp_all add: demo_not_found_def)
  show ?thesis
    using gc gr lo ne perform_request_http_error [OF gc gr lo ne, of 4]
    by (simp add: demo_not_found_def read_body_def lower_def lower_char_def demo_world_def)
qed



section \<open>Connections opened and closed\<close>

lemma hop_trace_0: "hop_trace c 0 = []"
  by (simp add: hop_trace_def)

lemma hop_trace_Suc: "hop_trace c (Suc k) = Open c # hop_trace (Suc c) k @ [Close c]"
  by (simp add: hop_trace_def upt_conv_Cons del: upt_Suc)

lemma trace_log_body [simp]: "trace (log_body c b w) = trace w"
  and next_conn_log_body [simp]: "next_conn (log_body c b w) = next_conn w"
  and trace_open_conn [simp]: "trace (open_conn w) = trace w @ [Open (next_conn w)]"
  and next_conn_open_conn [simp]: "next_conn (open_conn w) = Suc (next_conn w)"
  and trace_log_event [simp]: "trace (log_event e w) = trace w @ [e]"
  and next_conn_log_event [simp]: "next_conn (log_event e w) = next_conn w"
  by (simp_all add: log_body_def open_conn_def log_event_def)

lemma perform_request_trace:
  "perform_request n cl tr request w = Some (res, rq', w') \<Longrightarrow>
   \<exists>k. trace w' = trace w @ hop_trace (next_conn w) k
     \<and> next_conn w' = next_conn w + k
     \<and> (k = 0) = (\<exists>e. get_connection cl request = Inl e)"
proof (induction n arbitrary: request w res rq' w')
  case 0
  then show ?case by simp
next
  case (Suc n)
  let ?c = "next_conn w"
  have one: "\<exists>k. trace (log_event (Close ?c) v) = trace w @ hop_trace ?c k
          \<and> next_conn (log_event (Close ?c) v) = ?c + k
          \<and> (k = 0) = (\<exists>e. get_connection cl request = Inl e)"
    if "trace v = trace w @ [Open ?c]" "next_conn v = Suc ?c"
      "get_connection cl request = Inr connection" for v connection
    using that by (intro exI [of _ "Suc 0"]) (simp add: hop_trace_Suc hop_trace_0)
  show ?case
  proof (cases "get_connection cl request")
    case (Inl e)
    with Suc.prems show ?thesis
      by (intro exI [of _ 0]) (auto simp: hop_trace_0)
  next
    case (Inr connection)
    show ?thesis
    proof (cases "getresponse tr ?c (write_request cl tr request connection)")
      case None
      with Inr Suc.prems have "w' = log_event (Close ?c) (open_conn w)"
        by (simp add: finally_close_def)
      with one [of "open_conn w", OF _ _ Inr] show ?thesis by simp
    next
      case (Some resp)
      let ?w2 = "log_body ?c (read_body resp) (open_conn w)"
      note step = Suc.prems [unfolded perform_request_answered [OF Inr Some]]
      show ?thesis
      proof (cases "raw_status resp = 307")
        case False
        with step have "w' = log_event (Close ?c) ?w2"
          by (auto simp: finally_close_def split: if_splits)
        with one [of ?w2, OF _ _ Inr] show ?thesis by simp
      next
        case True
        show ?thesis
        proof (cases "dict_get (lower_names (raw_headers resp)) ''location''")
          case None
          with True step have "w' = log_event (Close ?c) ?w2"
            by (auto simp: finally_close_def)
          with one [of ?w2, OF _ _ Inr] show ?thesis by simp
        next
          case (Some location)
          with True step obtain v where
            rec: "perform_request n cl tr (redirect_request tr location request) ?w2
                    = Some (res, rq', v)"
            and w': "w' = log_event (Close ?c) v"
            by (auto simp: finally_close_def split: option.splits)
          from Suc.IH [OF rec] obtain k where
            k: "trace v = trace ?w2 @ hop_trace (next_conn ?w2) k"
               "next_conn v = next_conn ?w2 + k"
            by blast
          show ?thesis
            using k w' Inr by (intro exI [of _ "Suc k"]) (simp add: hop_trace_Suc)
        qed
      qed
    qed
  qed
qed



lemma count_hop_trace:
  "count_list (hop_trace c k) (Close i) = (if c \<le> i \<and> i < c + k then 1 else 0)"
  "count_list (hop_trace c k) (Open i) = (if c \<le> i \<and> i < c + k then 1 else 0)"
proof (induction k arbitrary: c)
  case 0
  { case 1 show ?case by (simp add: hop_trace_0) }
  { case 2 show ?case by (simp add: hop_trace_0) }
next
  case (Suc k)
  { case 1 show ?case by (simp add: hop_trace_Suc Suc.IH) }
  { case 2 show ?case by (simp add: hop_trace_Suc Suc.IH) }
qed


lemma perform_request_bodies:
  "perform_request n cl tr request w = Some (res, rq', w') \<Longrightarrow>
   \<exists>bs. bodies w' = bodies w @ bs"
proof (induction n arbitrary: request w res rq' w')
  case 0
  then show ?case by simp
next
  case (Suc n)
  show ?case
  proof (cases "get_connection cl request")
    case (Inl e)
    with Suc.prems show ?thesis by auto
  next
    case (Inr connection)
    show ?thesis
    proof (cases "getresponse tr (next_conn w) (write_request cl tr request connection)")
      case None
      with Inr Suc.prems show ?thesis
        by (auto simp: finally_close_def log_event_def open_conn_def Let_def)
    next
      case (Some resp)
      let ?w2 = "log_body (next_conn w) (read_body resp) (open_conn w)"
      have w2: "bodies ?w2 = bodies w @ [(next_conn w, read_body resp)]"
        by (simp add: log_body_def open_conn_def log_event_def)
      from Suc.prems [unfolded perform_request_answered [OF Inr Some]]
      consider "w' = log_event (Close (next_conn w)) ?w2"
        | location v where
          "perform_request n cl tr (redirect_request tr location request) ?w2
             = Some (res, rq', v)"
          "w' = log_event (Close (next_conn w)) v"
        by (auto simp: finally_close_def split: if_splits option.splits)
      then show ?thesis
      proof cases
        case 1
        with w2 show ?thesis by (simp add: log_event_def)
      next
        case 2
        from Suc.IH [OF 2(1)] obtain bs where "bodies v = bodies ?w2 @ bs"
          by blast
        with w2 2(2) show ?thesis by (simp add: log_event_def)
      qed
    qed
  qed
qed

text \<open>
  Claim C4, as amended. When \<open>perform_request\<close> returns or fails, the events it has added
  to the trace are the opening of the connections of its hops, in order, followed by
  the closing of these connections in the reverse order. So the connection opened by an
  invocation is closed before that invocation returns or propagates a failure, and on a
  307 the connection of the current hop is closed only after the connection of the next
  hop has been opened and closed.
\<close>

theorem perform_request_closes_connection:
  assumes "perform_request n cl tr request w = Some (res, rq', w')"
  shows "\<exists>k. trace w' = trace w @ map Open [next_conn w ..< next_conn w + k]
                            @ map Close (rev [next_conn w ..< next_conn w + k])
           \<and> ((\<exists>connection. get_connection cl request = Inr connection) \<longrightarrow> 0 < k)"
proof -
  from perform_request_trace [OF assms] obtain k where
    k: "trace w' = trace w @ hop_trace (next_conn w) k"
       "(k = 0) = (\<exists>e. get_connection cl request = Inl e)"
    by blast
  then show ?thesis
    by (intro exI [of _ k]) (simp add: hop_trace_def, cases "get_connection cl request"; simp)
qed

theorem perform_request_closes_connection_witness:
  "perform_request (Suc (Suc 0)) demo_client demo_transport (demo_request ''host1'') demo_world =
     Some (Inr \<lparr>status = 200, message = ''OK'',
                 resp_headers = [(''content-type'', ''text/plain''), (''x-ms-id'', ''A1'')],
                 resp_body = Some ''hello''\<rparr>,
           (demo_request ''host2'')\<lparr>path := ''/newpath?y=2''\<rparr>,
           \<lparr>trace = [Open 0, Open 1, Close 1, Close 0], next_conn = 2,
            bodies = [(0, None), (1, Some ''hello'')]\<rparr>)
   \<and> (\<exists>k. [Open 0, Open 1, Close 1, Close 0] =
            trace demo_world @ map Open [next_conn demo_world ..< next_conn demo_world + k]
              @ map Close (rev [next_conn demo_world ..< next_conn demo_world + k])
          \<and> ((\<exists>connection. get_connection demo_client (demo_request ''host1'') = Inr connection)
               \<longrightarrow> 0 < k))"
proof -
  have run: "perform_request (Suc (Suc 0)) demo_client demo_transport (demo_request ''host1'')
       demo_world =
     Some (Inr \<lparr>status = 200, message = ''OK'',
                 resp_headers = [(''content-type'', ''text/plain''), (''x-ms-id'', ''A1'')],
                 resp_body = Some ''hello''\<rparr>,
           (demo_request ''host2'')\<lparr>path := ''/newpath?y=2''\<rparr>,
           \<lparr>trace = [Open 0, Open 1, Close 1, Close 0], next_conn = 2,
            bodies = [(0, None), (1, Some ''hello'')]\<rparr>)"
    by code_simp
  from perform_request_closes_connection [OF run]
  have "\<exists>k. [Open 0, Open 1, Close 1, Close 0] =
            trace demo_world @ map Open [next_conn demo_world ..< next_conn demo_world + k]
              @ map Close (rev [next_conn demo_world ..< next_conn demo_world + k])
          \<and> ((\<exists>connection. get_connection demo_client (demo_request ''host1'') = Inr connection)
               \<longrightarrow> 0 < k)"
    by (simp del: upt_Suc)
  with run show ?thesis by (rule conjI)
qed

text \<open>
  Claim C4 as stated fails in its second half: in the run below the first hop is answered
  with a 307, and the connection of the second hop is opened before the connection of
  the first hop is closed.
\<close>

theorem redirect_connections_nested:
  "perform_request (Suc (Suc 0)) demo_client demo_transport (demo_request ''host1'') demo_world =
     Some (Inr \<lparr>status = 200, message = ''OK'',
                 resp_headers = [(''content-type'', ''text/plain''), (''x-ms-id'', ''A1'')],
                 resp_body = Some ''hello''\<rparr>,
           (demo_request ''host2'')\<lparr>path := ''/newpath?y=2''\<rparr>,
           \<lparr>trace = [Open 0, Open 1, Close 1, Close 0], next_conn = 2,
            bodies = [(0, None), (1, Some ''hello'')]\<rparr>)
   \<and> \<not> precedes (Close 0) (Open 1) [Open 0, Open 1, Close 1, Close 0]
   \<and> precedes (Open 1) (Close 0) [Open 0, Open 1, Close 1, Close 0]"
  by code_simp

text \<open>
  A run whose chain of redirects ends returns, and more hops allowed change nothing.
\<close>

lemma chain_ends_returns:
  "chain_ends k cl tr request (next_conn w) \<Longrightarrow>
   \<exists>x. perform_request k cl tr request w = Some x"
proof (induction k arbitrary: request w)
  case 0
  then show ?case by simp
next
  case (Suc k)
  show ?case
  proof (cases "get_connection cl request")
    case (Inl e)
    then show ?thesis by simp
  next
    case (Inr connection)
    show ?thesis
    proof (cases "getresponse tr (next_conn w) (write_request cl tr request connection)")
      case None
      with Inr show ?thesis by (simp add: finally_close_def Let_def)
    next
      case (Some resp)
      let ?w2 = "log_body (next_conn w) (read_body resp) (open_conn w)"
      show ?thesis
      proof (cases "raw_status resp = 307")
        case False
        then show ?thesis
          unfolding perform_request_answered [OF Inr Some] by (simp add: finally_close_def)
      next
        case True
        show ?thesis
        proof (cases "dict_get (lower_names (raw_headers resp)) ''location''")
          case None
          with True show ?thesis
            unfolding perform_request_answered [OF Inr Some] by (simp add: finally_close_def)
        next
          case (Some location)
          with Suc.prems Inr \<open>getresponse tr (next_conn w) _ = Some resp\<close> True
          have "chain_ends k cl tr (redirect_request tr location request) (next_conn ?w2)"
            by simp
          from Suc.IH [OF this] obtain x where
            "perform_request k cl tr (redirect_request tr location request) ?w2 = Some x"
            by blast
          with True Some show ?thesis
            unfolding perform_request_answered [OF Inr \<open>getresponse tr (next_conn w) _ = Some resp\<close>]
            by (cases x) (simp add: finally_close_def)
        qed
      qed
    qed
  qed
qed

lemma perform_request_more_fuel:
  "perform_request k cl tr request w = Some x \<Longrightarrow> k \<le> n \<Longrightarrow>
   perform_request n cl tr request w = Some x"
proof (induction k arbitrary: n request w x)
  case 0
  then show ?case by simp
next
  case (Suc k)
  from Suc.prems(2) obtain m where n: "n = Suc m" and km: "k \<le> m"
    by (cases n) auto
  show ?case
  proof (cases "get_connection cl request")
    case (Inl e)
    with Suc.prems(1) show ?thesis by (simp add: n)
  next
    case (Inr connection)
    show ?thesis
    proof (cases "getresponse tr (next_conn w) (write_request cl tr request connection)")
      case None
      with Inr Suc.prems(1) show ?thesis by (simp add: n)
    next
      case (Some resp)
      let ?w2 = "log_body (next_conn w) (read_body resp) (open_conn w)"
      note step = perform_request_answered [OF Inr Some]
      show ?thesis
      proof (cases "raw_status resp = 307")
        case False
        with Suc.prems(1) show ?thesis
          unfolding n step by simp
      next
        case True
        show ?thesis
        proof (cases "dict_get (lower_names (raw_headers resp)) ''location''")
          case None
          with True Suc.prems(1) show ?thesis
            unfolding n step by simp
        next
          case loc: (Some location)
          with True Suc.prems(1) obtain y where
            rec: "perform_request k cl tr (redirect_request tr location request) ?w2 = Some y"
            unfolding step by (auto simp: finally_close_def split: option.splits)
          from Suc.IH [OF rec km]
          have "perform_request m cl tr (redirect_request tr location request) ?w2 = Some y" .
          with rec True loc Suc.prems(1) show ?thesis
            unfolding n step by simp
        qed
      qed
    qed
  qed
qed

text \<open>
  Claim C9. When \<open>perform_request\<close> has got its connection and the chain of redirects
  ends within \<open>k\<close> hops, the call returns or fails, with the same outcome for every
  number of hops allowed from \<open>k\<close> on; whatever that outcome is, the events added to the
  trace contain the closing of the call's connection exactly once, and every connection
  of the run is closed as often as it was opened, at most once.
\<close>

theorem perform_request_close_once:
  assumes "get_connection cl request = Inr connection"
    and "chain_ends k cl tr request (next_conn w)"
  shows "\<exists>res rq' w' new.
           (\<forall>n\<ge>k. perform_request n cl tr request w = Some (res, rq', w'))
         \<and> trace w' = trace w @ new
         \<and> count_list new (Close (next_conn w)) = 1
         \<and> (\<forall>i. count_list new (Close i) = count_list new (Open i)
                \<and> count_list new (Close i) \<le> 1)"
proof -
  from chain_ends_returns [OF assms(2)] obtain res rq' w' where
    run: "perform_request k cl tr request w = Some (res, rq', w')"
    by (metis prod_cases3)
  from perform_request_trace [OF run] obtain j where
    j: "trace w' = trace w @ hop_trace (next_conn w) j"
       "(j = 0) = (\<exists>e. get_connection cl request = Inl e)"
    by blast
  from j(2) assms(1) have "0 < j" by auto
  have always: "\<forall>n\<ge>k. perform_request n cl tr request w = Some (res, rq', w')"
    using perform_request_more_fuel [OF run] by blast
  show ?thesis
    using always j(1) \<open>0 < j\<close>
    by (intro exI [of _ res] exI [of _ rq'] exI [of _ w'] exI [of _ "hop_trace (next_conn w) j"])
       (simp add: count_hop_trace)
qed

theorem perform_request_close_once_witness:
  "(get_connection demo_client (demo_request ''host1'') = Inr (demo_connection ''host1'')
    \<and> chain_ends 2 demo_client demo_transport (demo_request ''host1'') (next_conn demo_world)
    \<and> perform_request 5 demo_client demo_transport (demo_request ''host1'') demo_world =
        Some (Inr \<lparr>status = 200, message = ''OK'',
                    resp_headers = [(''content-type'', ''text/plain''), (''x-ms-id'', ''A1'')],
                    resp_body = Some ''hello''\<rparr>,
              (demo_request ''host2'')\<lparr>path := ''/newpath?y=2''\<rparr>,
              \<lparr>trace = [Open 0, Open 1, Close 1, Close 0], next_conn = 2,
               bodies = [(0, None), (1, Some ''hello'')]\<rparr>)
    \<and> count_list [Open 0, Open 1, Close 1, Close 0] (Close 0) = 1
    \<and> count_list [Open 0, Open 1, Close 1, Close 0] (Close 1) = 1)
   \<and> (get_connection demo_client (demo_request ''host3'') = Inr (demo_connection ''host3'')
    \<and> chain_ends 1 demo_client demo_transport (demo_request ''host3'') (next_conn demo_world)
    \<and> perform_request 5 demo_client demo_transport (demo_request ''host3'') demo_world =
        Some (Inl (HTTPError 404 ''Not Found'' [(''content-length'', ''3'')] (Some ''gon'')),
              demo_request ''host3'',
              \<lparr>trace = [Open 0, Close 0], next_conn = 1, bodies = [(0, Some ''gon'')]\<rparr>)
    \<and> count_list [Open 0, Close 0] (Close 0) = 1)
   \<and> (get_connection demo_client (demo_request ''host5'') = Inr (demo_connection ''host5'')
    \<and> chain_ends 1 demo_client demo_transport (demo_request ''host5'') (next_conn demo_world)
    \<and> perform_request 5 demo_client demo_transport (demo_request ''host5'') demo_world =
        Some (Inl TransportError, demo_request ''host5'',
              \<lparr>trace = [Open 0, Close 0], next_conn = 1, bodies = []\<rparr>)
    \<and> count_list [Open 0, Close 0] (Close 0) = 1)"
proof -
  have gc1: "get_connection demo_client (demo_request ''host1'') = Inr (demo_connection ''host1'')"
    and gc3: "get_connection demo_client (demo_request ''host3'') = Inr (demo_connection ''host3'')"
    and gc5: "get_connection demo_client (demo_request ''host5'') = Inr (demo_connection ''host5'')"
    by code_simp+
  have ce1: "chain_ends 2 demo_client demo_transport (demo_request ''host1'') (next_conn demo_world)"
    and ce3: "chain_ends 1 demo_client demo_transport (demo_request ''host3'') (next_conn demo_world)"
    and ce5: "chain_ends 1 demo_client demo_transport (demo_request ''host5'') (next_conn demo_world)"
    by code_simp+
  have run1: "perform_request 5 demo_client demo_transport (demo_request ''host1'') demo_world =
        Some (Inr \<lparr>status = 200, message = ''OK'',
                    resp_headers = [(''content-type'', ''text/plain''), (''x-ms-id'', ''A1'')],
                    resp_body = Some ''hello''\<rparr>,
              (demo_request ''host2'')\<lparr>path := ''/newpath?y=2''\<rparr>,
              \<lparr>trace = [Open 0, Open 1, Close 1, Close 0], next_conn = 2,
               bodies = [(0, None), (1, Some ''hello'')]\<rparr>)"
    by code_simp
  have run3: "perform_request 5 demo_client demo_transport (demo_request ''host3'') demo_world =
        Some (Inl (HTTPError 404 ''Not Found'' [(''content-length'', ''3'')] (Some ''gon'')),
              demo_request ''host3'',
              \<lparr>trace = [Open 0, Close 0], next_conn = 1, bodies = [(0, Some ''gon'')]\<rparr>)"
    by code_simp
  have run5: "perform_request 5 demo_client demo_transport (demo_request ''host5'') demo_world =
        Some (Inl TransportError, demo_request ''host5'',
              \<lparr>trace = [Open 0, Close 0], next_conn = 1, bodies = []\<rparr>)"
    by code_simp
  have start: "trace demo_world = []" "next_conn demo_world = 0"
    by (simp_all add: demo_world_def)
  from perform_request_close_once [OF gc1 ce1] obtain res rq' w' new where
    "\<forall>n\<ge>2. perform_request n demo_client demo_transport (demo_request ''host1'') demo_world
       = Some (res, rq', w')"
    and "trace w' = trace demo_world @ new"
    and "count_list new (Close (next_conn demo_world)) = 1"
    and "\<forall>i. count_list new (Close i) = count_list new (Open i) \<and> count_list new (Close i) \<le> 1"
    by blast
  moreover from this(1) have "perform_request 5 demo_client demo_transport
      (demo_request ''host1'') demo_world = Some (res, rq', w')"
    by simp
  ultimately have c1: "count_list [Open 0, Open 1, Close 1, Close 0] (Close 0) = 1
    \<and> count_list [Open 0, Open 1, Close 1, Close 0] (Close 1) = 1"
    using run1 start by simp
  from perform_request_close_once [OF gc3 ce3] obtain res rq' w' new where
    "\<forall>n\<ge>1. perform_request n demo_client demo_transport (demo_request ''host3'') demo_world
       = Some (res, rq', w')"
    and "trace w' = trace demo_world @ new"
    and "count_list new (Close (next_conn demo_world)) = 1"
    by blast
  moreover from this(1) have "perform_request 5 demo_client demo_transport
      (demo_request ''host3'') demo_world = Some (res, rq', w')"
    by simp
  ultimately have c3: "count_list [Open 0, Close 0] (Close 0) = 1"
    using run3 start by simp
  from perform_request_close_once [OF gc5 ce5] obtain res rq' w' new where
    "\<forall>n\<ge>1. perform_request n demo_client demo_transport (demo_request ''host5'') demo_world
       = Some (res, rq', w')"
    and "trace w' = trace demo_world @ new"
    and "count_list new (Close (next_conn demo_world)) = 1"
    by blast
  moreover from this(1) have "perform_request 5 demo_client demo_transport
      (demo_request ''host5'') demo_world = Some (res, rq', w')"
    by simp
  ultimately have c5: "count_list [Open 0, Close 0] (Close 0) = 1"
    using run5 start by simp
  from gc1 ce1 run1 c1 gc3 ce3 run3 c3 gc5 ce5 run5 c5 show ?thesis
    by (intro conjI) (erule conjunct1 conjunct2 | assumption)+
qed

section \<open>Reading the body\<close>

text \<open>
  Claim C7, as amended. The body read from a response is the whole stream when the
  response declares no length; when it declares a positive length \<open>n\<close> it is what
  \<open>read(n)\<close> returns, the first \<open>n\<close> bytes of the stream, which are fewer than \<open>n\<close> when
  the stream ends before; and it is \<open>None\<close> when the response declares the length 0.
  This is the body of the response or of the HTTPError that \<open>perform_request\<close> produces
  for a status other than 307, and the value recorded for the connection in every run
  that returns.
\<close>

theorem perform_request_body:
  assumes "get_connection cl request = Inr connection"
    and "getresponse tr (next_conn w) (write_request cl tr request connection) = Some resp"
  shows "\<exists>b. (raw_length resp = None \<longrightarrow> b = Some (raw_stream resp))
           \<and> (\<forall>len. raw_length resp = Some len \<and> 0 < len \<longrightarrow>
                  b = Some (take (nat len) (raw_stream resp))
                \<and> map_option length b = Some (min (nat len) (length (raw_stream resp))))
           \<and> (raw_length resp = Some 0 \<longrightarrow> b = None)
           \<and> (raw_status resp \<noteq> 307 \<longrightarrow>
                (\<exists>res rq' w'. perform_request (Suc n) cl tr request w = Some (res, rq', w')
                   \<and> outcome_body res = Some b))
           \<and> (\<forall>res rq' w'. perform_request (Suc n) cl tr request w = Some (res, rq', w') \<longrightarrow>
                  (next_conn w, b) \<in> set (bodies w'))"
proof -
  let ?b = "read_body resp"
  let ?w2 = "log_body (next_conn w) ?b (open_conn w)"
  have no_length: "raw_length resp = None \<longrightarrow> ?b = Some (raw_stream resp)"
    by (simp add: read_body_def)
  have positive: "\<forall>len. raw_length resp = Some len \<and> 0 < len \<longrightarrow>
                  ?b = Some (take (nat len) (raw_stream resp))
                \<and> map_option length ?b = Some (min (nat len) (length (raw_stream resp)))"
    by (simp add: read_body_def min.commute)
  have zero: "raw_length resp = Some 0 \<longrightarrow> ?b = None"
    by (simp add: read_body_def)
  have returned: "raw_status resp \<noteq> 307 \<longrightarrow>
      (\<exists>res rq' w'. perform_request (Suc n) cl tr request w = Some (res, rq', w')
                   \<and> outcome_body res = Some ?b)"
    unfolding perform_request_answered [OF assms]
    by (simp add: finally_close_def)
  have logged: "(next_conn w, ?b) \<in> set (bodies w')"
    if run: "perform_request (Suc n) cl tr request w = Some (res, rq', w')" for res rq' w'
  proof -
    have here: "(next_conn w, ?b) \<in> set (bodies ?w2)"
      by (simp add: log_body_def)
    from run [unfolded perform_request_answered [OF assms]]
    consider "w' = log_event (Close (next_conn w)) ?w2"
      | location v where
        "perform_request n cl tr (redirect_request tr location request) ?w2 = Some (res, rq', v)"
        "w' = log_event (Close (next_conn w)) v"
      by (auto simp: finally_close_def split: if_splits option.splits)
    then show ?thesis
    proof cases
      case 1
      with here show ?thesis by (simp add: log_event_def)
    next
      case 2
      from perform_request_bodies [OF 2(1)] obtain bs where "bodies v = bodies ?w2 @ bs"
        by blast
      with here 2(2) show ?thesis by (simp add: log_event_def)
    qed
  qed
  then have logged': "\<forall>res rq' w'.
      perform_request (Suc n) cl tr request w = Some (res, rq', w') \<longrightarrow>
        (next_conn w, ?b) \<in> set (bodies w')"
    by (intro allI impI)
  show ?thesis
    by (intro exI [of _ ?b] conjI) (fact no_length positive zero returned logged')+
qed

theorem perform_request_body_witness:
  "(get_connection demo_client (demo_request ''host2'') = Inr (demo_connection ''host2'')
    \<and> getresponse demo_transport (next_conn demo_world)
          (write_request demo_client demo_transport (demo_request ''host2'')
             (demo_connection ''host2'')) = Some demo_ok
    \<and> raw_length demo_ok = None \<and> raw_status demo_ok \<noteq> 307
    \<and> (\<exists>res rq' w'. perform_request (Suc 0) demo_client demo_transport
                         (demo_request ''host2'') demo_world = Some (res, rq', w')
                     \<and> outcome_body res = Some (Some ''hello'')))
   \<and> (get_connection demo_client (demo_request ''host3'') = Inr (demo_connection ''host3'')
    \<and> getresponse demo_transport (next_conn demo_world)
          (write_request demo_client demo_transport (demo_request ''host3'')
             (demo_connection ''host3'')) = Some demo_not_found
    \<and> raw_length demo_not_found = Some 3 \<and> raw_status demo_not_found \<noteq> 307
    \<and> (\<exists>res rq' w'. perform_request (Suc 0) demo_client demo_transport
                         (demo_request ''host3'') demo_world = Some (res, rq', w')
                     \<and> outcome_body res = Some (Some ''gon'')))
   \<and> (get_connection demo_client (demo_request ''host4'') = Inr (demo_connection ''host4'')
    \<and> getresponse demo_transport (next_conn demo_world)
          (write_request demo_client demo_transport (demo_request ''host4'')
             (demo_connection ''host4'')) = Some demo_no_content
    \<and> raw_length demo_no_content = Some 0 \<and> raw_status demo_no_content \<noteq> 307
    \<and> (\<exists>res rq' w'. perform_request (Suc 0) demo_client demo_transport
                         (demo_request ''host4'') demo_world = Some (res, rq', w')
                     \<and> outcome_body res = Some None))"
proof -
  have gc2: "get_connection demo_client (demo_request ''host2'') = Inr (demo_connection ''host2'')"
    and gc3: "get_connection demo_client (demo_request ''host3'') = Inr (demo_connection ''host3'')"
    and gc4: "get_connection demo_client (demo_request ''host4'') = Inr (demo_connection ''host4'')"
    by code_simp+
  have gr2: "getresponse demo_transport (next_conn demo_world)
          (write_request demo_client demo_transport (demo_request ''host2'')
             (demo_connection ''host2'')) = Some demo_ok"
    and gr3: "getresponse demo_transport (next_conn demo_world)
          (write_request demo_client demo_transport (demo_request ''host3'')
             (demo_connection ''host3'')) = Some demo_not_found"
    and gr4: "getresponse demo_transport (next_conn demo_world)
          (write_request demo_client demo_transport (demo_request ''host4'')
             (demo_connection ''host4'')) = Some demo_no_content"
    by code_simp+
  have l2: "raw_length demo_ok = None \<and> raw_status demo_ok \<noteq> 307"
    by (simp add: demo_ok_def)
  have l3: "raw_length demo_not_found = Some 3 \<and> raw_status demo_not_found \<noteq> 307"
    by (simp add: demo_not_found_def)
  have l4: "raw_length demo_no_content = Some 0 \<and> raw_status demo_no_content \<noteq> 307"
    by (simp add: demo_no_content_def)
  have b2: "\<exists>res rq' w'. perform_request (Suc 0) demo_client demo_transport
                         (demo_request ''host2'') demo_world = Some (res, rq', w')
                     \<and> outcome_body res = Some (Some ''hello'')"
    using perform_request_body [OF gc2 gr2, of 0] l2
    by (auto simp: demo_ok_def simp del: perform_request.simps)
  have b3: "\<exists>res rq' w'. perform_request (Suc 0) demo_client demo_transport
                         (demo_request ''host3'') demo_world = Some (res, rq', w')
                     \<and> outcome_body res = Some (Some ''gon'')"
    using perform_request_body [OF gc3 gr3, of 0] l3
    by (auto simp: demo_not_found_def simp del: perform_request.simps)
  have b4: "\<exists>res rq' w'. perform_request (Suc 0) demo_client demo_transport
                         (demo_request ''host4'') demo_world = Some (res, rq', w')
                     \<and> outcome_body res = Some None"
    using perform_request_body [OF gc4 gr4, of 0] l4
    by (auto simp: demo_no_content_def simp del: perform_request.simps)
  from gc2 gr2 l2 b2 gc3 gr3 l3 b3 gc4 gr4 l4 b4 show ?thesis
    by (intro conjI) (erule conjunct1 conjunct2 | assumption)+
qed

text \<open>
  Claim C7 as stated fails where it says that the body has exactly \<open>n\<close> bytes: the server
  below declares 5 bytes and its stream ends after 2, and the body is these 2 bytes.
\<close>

theorem short_stream_short_body:
  "raw_length demo_short = Some 5
   \<and> getresponse demo_transport 0
         (write_request demo_client demo_transport (demo_request ''host6'')
            (demo_connection ''host6'')) = Some demo_short
   \<and> perform_request (Suc 0) demo_client demo_transport (demo_request ''host6'') demo_world =
       Some (Inr \<lparr>status = 200, message = ''OK'',
                   resp_headers = [(''content-length'', ''5'')],
                   resp_body = Some ''ab''\<rparr>,
             demo_request ''host6'',
             \<lparr>trace = [Open 0, Close 0], next_conn = 1, bodies = [(0, Some ''ab'')]\<rparr>)
   \<and> length ''ab'' < nat 5"
  by code_simp

section \<open>The query normalizer\<close>

lemma partition_chr_first: "c \<notin> set p \<Longrightarrow> partition_chr c (p @ c # s) = (p, s)"
  by (induction p) auto

lemma append_queries_render: "append_queries p qs = p @ concat (map render_pair qs)"
  by (induction p qs rule: append_queries.induct) auto

text \<open>
  Claim C5, as amended. For a path with an inline query string and a request with
  explicit pairs, the normalizer splits the path at the first \<open>?\<close>, appends the inline
  pairs (the pieces between \<open>&\<close> that contain \<open>=\<close>, split at their first \<open>=\<close>) after the
  explicit pairs, and rebuilds the path from the percent-encoded path, \<open>?\<close>, the explicit
  pairs and then the inline pairs. A pair is written as its name, unencoded, \<open>=\<close> and its
  value percent-encoded with the safe set \<open>/()$=',\<close>; a pair without a value is left out.
\<close>

theorem update_request_uri_query_merge:
  assumes "path r = p @ CHR ''?'' # query_string" and "CHR ''?'' \<notin> set p"
    and "query_string \<noteq> []" and "query r \<noteq> []"
  shows "query (update_request_uri_query r) = query r @ inline_pairs query_string
       \<and> path (update_request_uri_query r) =
           butlast (url_quote p safe_chars @ ''?''
                      @ concat (map render_pair (query r))
                      @ concat (map render_pair (inline_pairs query_string)))"
  using assms
  by (simp add: update_request_uri_query_def partition_chr_first append_queries_render Let_def)

theorem update_request_uri_query_merge_witness:
  "path (merge_request ''/a?x=1'' [(''y'', Some ''2'')]) = ''/a'' @ CHR ''?'' # ''x=1''
   \<and> CHR ''?'' \<notin> set ''/a'' \<and> ''x=1'' \<noteq> [] \<and> query (merge_request ''/a?x=1'' [(''y'', Some ''2'')]) \<noteq> []
   \<and> query (update_request_uri_query (merge_request ''/a?x=1'' [(''y'', Some ''2'')])) =
        [(''y'', Some ''2''), (''x'', Some ''1'')]
   \<and> path (update_request_uri_query (merge_request ''/a?x=1'' [(''y'', Some ''2'')])) =
        ''/a?y=2&x=1''"
proof -
  have h1: "path (merge_request ''/a?x=1'' [(''y'', Some ''2'')]) = ''/a'' @ CHR ''?'' # ''x=1''"
    by (simp add: merge_request_def)
  have h2: "CHR ''?'' \<notin> set ''/a''" by simp
  have h3: "''x=1'' \<noteq> []" by simp
  have h4: "query (merge_request ''/a?x=1'' [(''y'', Some ''2'')]) \<noteq> []"
    by (simp add: merge_request_def)
  have ip: "inline_pairs ''x=1'' = [(''x'', Some ''1'')]" by code_simp
  have q1: "url_quote ''/a'' safe_chars = ''/a''" "url_quote ''2'' safe_chars = ''2''"
    "url_quote ''1'' safe_chars = ''1''" by code_simp+
  show ?thesis
    using h1 h2 h3 h4 update_request_uri_query_merge [OF h1 h2 h3 h4]
    by (simp add: ip q1 merge_request_def)
qed

text \<open>
  Claim C5 as stated fails where it says that each pair is percent-encoded: the name of
  a pair is written as it is, here with its space.
\<close>

theorem name_not_percent_encoded:
  "path (update_request_uri_query (merge_request ''/a?x=1'' [(''y z'', Some ''2'')])) =
     ''/a?y z=2&x=1''
   \<and> spec_encoded_path ''/a'' [(''y z'', Some ''2'')] (inline_pairs ''x=1'') = ''/a?y%20z=2&x=1''"
  by code_simp

text \<open>
  Claim C6, as amended. For a path with an inline query string and a request with
  explicit pairs, the final path is the percent-encoded path, \<open>?\<close>, what the explicit pairs
  contribute and then what the pairs of the path contribute: the parameters that were in
  the path follow the explicit parameters.
\<close>

theorem update_request_uri_query_order:
  assumes "path r = p @ CHR ''?'' # query_string" and "CHR ''?'' \<notin> set p"
    and "query_string \<noteq> []" and "query r \<noteq> []"
  shows "\<exists>explicit_part inline_part.
           explicit_part = concat (map render_pair (query r))
         \<and> inline_part = concat (map render_pair (inline_pairs query_string))
         \<and> path (update_request_uri_query r) =
             butlast (url_quote p safe_chars @ ''?'' @ explicit_part @ inline_part)"
  using assms
  by (simp add: update_request_uri_query_def partition_chr_first append_queries_render Let_def)

theorem update_request_uri_query_order_witness:
  "path (merge_request ''/a?x=1'' [(''y'', Some ''2'')]) = ''/a'' @ CHR ''?'' # ''x=1''
   \<and> CHR ''?'' \<notin> set ''/a'' \<and> ''x=1'' \<noteq> []
   \<and> query (merge_request ''/a?x=1'' [(''y'', Some ''2'')]) \<noteq> []
   \<and> concat (map render_pair (query (merge_request ''/a?x=1'' [(''y'', Some ''2'')]))) = ''y=2&''
   \<and> concat (map render_pair (inline_pairs ''x=1'')) = ''x=1&''
   \<and> path (update_request_uri_query (merge_request ''/a?x=1'' [(''y'', Some ''2'')])) =
        butlast (''/a'' @ ''?'' @ ''y=2&'' @ ''x=1&'')"
proof -
  have h1: "path (merge_request ''/a?x=1'' [(''y'', Some ''2'')]) = ''/a'' @ CHR ''?'' # ''x=1''"
    by (simp add: merge_request_def)
  have h2: "CHR ''?'' \<notin> set ''/a''" by simp
  have h3: "''x=1'' \<noteq> []" by simp
  have h4: "query (merge_request ''/a?x=1'' [(''y'', Some ''2'')]) \<noteq> []"
    by (simp add: merge_request_def)
  have e: "concat (map render_pair (query (merge_request ''/a?x=1'' [(''y'', Some ''2'')])))
             = ''y=2&''"
    and i: "concat (map render_pair (inline_pairs ''x=1'')) = ''x=1&''"
    and q: "url_quote ''/a'' safe_chars = ''/a''"
    by code_simp+
  from update_request_uri_query_order [OF h1 h2 h3 h4]
  have "path (update_request_uri_query (merge_request ''/a?x=1'' [(''y'', Some ''2'')])) =
        butlast (''/a'' @ ''?'' @ ''y=2&'' @ ''x=1&'')"
    by (simp add: e i q)
  with h1 h2 h3 h4 e i show ?thesis
    by (intro conjI)
qed

text \<open>
  Claim C6 as stated fails: the parameter of the path comes last, not first.
\<close>

theorem inline_pairs_follow_explicit:
  "path (update_request_uri_query (merge_request ''/a?x=1'' [(''y'', Some ''2'')])) =
     ''/a?y=2&x=1''
   \<and> spec_path_first ''/a'' [(''y'', Some ''2'')] (inline_pairs ''x=1'') = ''/a?x=1&y=2''"
  by code_simp

section \<open>The Host header behind a proxy\<close>

lemma remove_host_lines_none:
  "filter is_host_line buf = [] \<Longrightarrow> remove_host_lines k buf = buf"
proof (induction k buf rule: remove_host_lines.induct)
  case (1 k buf)
  show ?case
  proof (cases "k < length buf")
    case True
    with "1.prems" have "\<not> is_host_line (buf ! k)"
      by (auto simp: filter_empty_conv)
    with True "1.IH"(2) "1.prems" show ?thesis
      by (subst remove_host_lines.simps) simp
  next
    case False
    then show ?thesis by (subst remove_host_lines.simps) simp
  qed
qed

lemma remove_host_lines_one:
  assumes "filter is_host_line xs = []" and "filter is_host_line ys = []"
    and "is_host_line h" and "k \<le> length xs"
  shows "remove_host_lines k (xs @ h # ys) = xs @ ys"
  using assms(4)
proof (induction "length xs - k" arbitrary: k)
  case 0
  then have k: "k = length xs" by simp
  have "h \<notin> set xs"
    using assms(1,3) by (auto simp: filter_empty_conv)
  then have "remove1 h (xs @ h # ys) = xs @ ys"
    by (simp add: remove1_append)
  moreover have "remove_host_lines (Suc k) (xs @ ys) = xs @ ys"
    using assms(1,2) by (intro remove_host_lines_none) simp
  ultimately show ?case
    using k assms(3) by (subst remove_host_lines.simps) simp
next
  case (Suc d)
  then have lt: "k < length xs" by simp
  with assms(1) have "\<not> is_host_line (xs ! k)"
    by (auto simp: filter_empty_conv)
  moreover from Suc have "remove_host_lines (Suc k) (xs @ h # ys) = xs @ ys"
    by simp
  ultimately show ?case
    using lt by (subst remove_host_lines.simps) (simp add: nth_append)
qed

lemma put_request_headers_lines:
  "put_request_headers c hs = c\<lparr>buffer := buffer c @ request_header_lines hs\<rparr>"
  by (induction c hs rule: put_request_headers.induct) (auto simp: putheader_def split: option.splits)

lemma host_line_header: "is_host_line l \<Longrightarrow> is_host_header l"
proof -
  assume "is_host_line l"
  then have "take (length ''Host: '') l = ''Host: ''"
    by (simp only: is_host_line_def startswith_def)
  then have "l = ''Host: '' @ drop (length ''Host: '') l"
    by (metis append_take_drop_id)
  then obtain r where "l = ''Host: '' @ r" ..
  then show ?thesis
    by (simp add: is_host_header_def startswith_def lower_def lower_char_def)
qed

lemma remove_host_lines_default:
  assumes "filter is_host_header buf = [d]" and "is_host_line d"
  shows "filter is_host_header (remove_host_lines 0 buf) = []"
    and "d \<notin> set (remove_host_lines 0 buf)"
proof -
  from assms(1) obtain xs ys where
    buf: "buf = xs @ d # ys" and xs: "\<forall>u\<in>set xs. \<not> is_host_header u"
    and ys: "filter is_host_header ys = []"
    by (auto simp: filter_eq_Cons_iff)
  from xs have xs': "filter is_host_header xs = []"
    by (simp add: filter_empty_conv)
  have no_line: "filter is_host_line zs = []" if "filter is_host_header zs = []" for zs
    using that host_line_header by (auto simp: filter_empty_conv)
  have removed: "remove_host_lines 0 buf = xs @ ys"
    unfolding buf using no_line [OF xs'] no_line [OF ys] assms(2)
    by (intro remove_host_lines_one) simp_all
  show "filter is_host_header (remove_host_lines 0 buf) = []"
    by (simp add: removed xs' ys)
  have "is_host_header d"
    using assms(2) by (rule host_line_header)
  with xs' ys show "d \<notin> set (remove_host_lines 0 buf)"
    by (auto simp: removed filter_empty_conv)
qed

lemma user_agent_not_host_header: "\<not> is_host_header (header_line ''User-Agent'' v)"
  by (simp add: is_host_header_def startswith_def header_line_def lower_def lower_char_def)

lemma host_line_is_host_header: "is_host_header (header_line ''Host'' v)"
  by (simp add: is_host_header_def startswith_def header_line_def lower_def lower_char_def)

text \<open>
  Claim C8, as amended. On the socket-based variant with a proxy, for a connection with
  a tunnel whose buffer holds a single Host header, the default one in the library's
  spelling \<open>Host: \<close>, and which has transmitted no Host header yet, and for request
  headers none of which is written as a Host header, \<open>send_request_headers\<close> removes the
  default Host line and transmits exactly one Host header, which names the tunnel
  target's host and port.
\<close>

theorem send_request_headers_one_host:
  assumes "use_httplib cl" and "truthy (proxy_host cl)" and "request_session cl = None"
    and "tunnel connection = Some (th, tp, auth)"
    and "filter is_host_header (buffer connection) = [default_host]"
    and "is_host_line default_host"
    and "filter is_host_header (sent connection) = []"
    and "filter is_host_header (request_header_lines request_headers) = []"
  shows "filter is_host_header (sent (send_request_headers cl connection request_headers)) =
           [''Host: '' @ th @ '':'' @ str_int tp]
       \<and> default_host \<notin> set (remove_host_lines 0 (buffer connection))
       \<and> buffer (send_request_headers cl connection request_headers) = []"
proof -
  note removed = remove_host_lines_default [OF assms(5,6)]
  have target: "header_line ''Host'' (tunnel_target connection) = ''Host: '' @ th @ '':'' @ str_int tp"
    using assms(4) by (simp add: tunnel_target_def header_line_def)
  have "filter is_host_header (sent (send_request_headers cl connection request_headers)) =
          [header_line ''Host'' (tunnel_target connection)]"
    using assms(1,2,3,7,8) host_line_is_host_header [of "tunnel_target connection"]
    by (simp add: send_request_headers_def Let_def put_request_headers_lines putheader_def
        endheaders_def removed(1) user_agent_not_host_header)
  moreover have "buffer (send_request_headers cl connection request_headers) = []"
    by (simp add: send_request_headers_def Let_def endheaders_def)
  ultimately show ?thesis
    using removed(2) by (simp only: target simp_thms)
qed

theorem send_request_headers_one_host_witness:
  "use_httplib proxy_client \<and> truthy (proxy_host proxy_client)
   \<and> request_session proxy_client = None
   \<and> tunnel tunnel_connection = Some (''host2'', 443, None)
   \<and> filter is_host_header (buffer tunnel_connection) = [''Host: proxy:3128'']
   \<and> is_host_line ''Host: proxy:3128''
   \<and> filter is_host_header (sent tunnel_connection) = []
   \<and> filter is_host_header (request_header_lines [(''x-ms-version'', Some ''2014-10-01'')]) = []
   \<and> sent (send_request_headers proxy_client tunnel_connection
              [(''x-ms-version'', Some ''2014-10-01'')]) =
        [''GET /a HTTP/1.1'', ''Accept-Encoding: identity'', ''Host: host2:443'',
         ''x-ms-version: 2014-10-01'', ''User-Agent: agent'']
   \<and> filter is_host_header
        (sent (send_request_headers proxy_client tunnel_connection
                 [(''x-ms-version'', Some ''2014-10-01'')])) = [''Host: host2:443'']"
proof -
  have h1: "use_httplib proxy_client" and h2: "truthy (proxy_host proxy_client)"
    and h3: "request_session proxy_client = None"
    by code_simp+
  have h4: "tunnel tunnel_connection = Some (''host2'', 443, None)"
    by code_simp
  have h5: "filter is_host_header (buffer tunnel_connection) = [''Host: proxy:3128'']"
    by code_simp
  have h5': "is_host_line ''Host: proxy:3128''"
    by code_simp
  have h6: "filter is_host_header (sent tunnel_connection) = []"
    by code_simp
  have h7: "filter is_host_header (request_header_lines [(''x-ms-version'', Some ''2014-10-01'')]) = []"
    by code_simp
  have all_sent: "sent (send_request_headers proxy_client tunnel_connection
              [(''x-ms-version'', Some ''2014-10-01'')]) =
        [''GET /a HTTP/1.1'', ''Accept-Encoding: identity'', ''Host: host2:443'',
         ''x-ms-version: 2014-10-01'', ''User-Agent: agent'']"
    by code_simp
  have port: "str_int 443 = ''443''"
    by code_simp
  from send_request_headers_one_host [OF h1 h2 h3 h4 h5 h5' h6 h7]
  have one: "filter is_host_header
        (sent (send_request_headers proxy_client tunnel_connection
                 [(''x-ms-version'', Some ''2014-10-01'')])) = [''Host: host2:443'']"
    by (simp add: port)
  from h1 h2 h3 h4 h5 h5' h6 h7 all_sent one show ?thesis
    by (intro conjI)
qed

text \<open>
  Claim C8 as stated fails for a caller who supplies a Host header of their own: it is
  written after the corrected one, and two Host headers are transmitted.
\<close>

theorem caller_host_header_sent_twice:
  "use_httplib proxy_client \<and> truthy (proxy_host proxy_client)
   \<and> request_session proxy_client = None
   \<and> tunnel tunnel_connection = Some (''host2'', 443, None)
   \<and> filter is_host_header (buffer tunnel_connection) = [''Host: proxy:3128'']
   \<and> filter is_host_header
        (sent (send_request_headers proxy_client tunnel_connection [(''Host'', Some ''other'')])) =
        [''Host: host2:443'', ''Host: other'']"
  by code_simp

section \<open>Protocol, port and connection class\<close>

lemma lower_char_idem: "lower_char (lower_char c) = lower_char c"
  by (simp add: lower_char_def)

lemma lower_idem: "lower (lower s) = lower s"
  by (simp add: lower_def lower_char_idem)

lemma effective_protocol_lower: "lower (effective_protocol cl r) = effective_protocol cl r"
  by (simp add: effective_protocol_def lower_idem)

lemma str_int_ports: "str_int HTTP_PORT = ''80''" "str_int HTTPS_PORT = ''443''"
  by code_simp+

lemma py_int_PInt: "py_int (Some (PInt i)) = Inr i"
  by (simp add: py_int_def)

text \<open>
  Claim C10, as amended. \<open>get_uri\<close> writes port 80 when the effective protocol (the
  override or the client's protocol, in lower case) is \<open>http\<close> and port 443 for every
  other protocol. On the socket-based variant \<open>get_connection\<close> builds a plain HTTP
  connection in the first case and an HTTPS connection in the second; its target port
  (of the connection, or of the tunnel behind a proxy) is the number written after the
  last \<open>:\<close> of the host when the host has one, and otherwise 80 in the first case and 443
  in the second. With a session, and on the platform-native transport, \<open>get_connection\<close>
  chooses no port and no HTTP or HTTPS class: the connection is handed the host and the
  protocol in lower case. Without a proxy \<open>get_connection\<close> is given in full.
\<close>

theorem protocol_selects_port:
  assumes "host r = Some h"
  shows "get_uri cl r =
           Inr (effective_protocol cl r @ ''://'' @ h @ '':''
                  @ (if effective_protocol cl r = ''http'' then ''80'' else ''443'') @ path r)
       \<and> (\<forall>c. get_connection cl r = Inr c \<longrightarrow>
             (if request_session cl \<noteq> None then
                kind c = RequestsConnection \<and> conn_host c = Some h \<and> conn_port c = None
                \<and> conn_protocol c = Some (effective_protocol cl r)
              else if \<not> use_httplib cl then
                kind c = WinHTTPConnection \<and> conn_host c = Some h \<and> conn_port c = None
                \<and> conn_protocol c = Some (effective_protocol cl r)
              else
                kind c = (if effective_protocol cl r = ''http''
                          then HTTPConnection else HTTPSConnection)
                \<and> (\<exists>target_host target_port.
                      (if CHR '':'' \<in> set h
                       then target_host = fst (rpartition_chr CHR '':'' h)
                          \<and> int_of_string (snd (rpartition_chr CHR '':'' h)) = Some target_port
                       else target_host = h
                          \<and> target_port = (if effective_protocol cl r = ''http'' then 80 else 443))
                    \<and> (if truthy (proxy_host cl)
                       then \<exists>a. tunnel c = Some (target_host, target_port, a)
                       else conn_host c = Some target_host \<and> conn_port c = Some target_port))))
       \<and> (\<not> truthy (proxy_host cl) \<longrightarrow>
             get_connection cl r =
               (if request_session cl \<noteq> None then
                  Inr (new_connection RequestsConnection (Some h) None
                         (Some (effective_protocol cl r)) None (timeout cl))
                else if \<not> use_httplib cl then
                  Inr (new_connection WinHTTPConnection (Some h) None
                         (Some (effective_protocol cl r)) (cert_file cl) (timeout cl))
                else if CHR '':'' \<in> set h then
                  (case int_of_string (snd (rpartition_chr CHR '':'' h)) of
                     None \<Rightarrow> Inl ValueError
                   | Some p \<Rightarrow>
                       if effective_protocol cl r = ''http''
                       then Inr (new_connection HTTPConnection
                                   (Some (fst (rpartition_chr CHR '':'' h))) (Some p)
                                   None None (timeout cl))
                       else Inr (new_connection HTTPSConnection
                                   (Some (fst (rpartition_chr CHR '':'' h))) (Some p)
                                   None (cert_file cl) (timeout cl)))
                else if effective_protocol cl r = ''http''
                then Inr (new_connection HTTPConnection (Some h) (Some 80) None None (timeout cl))
                else Inr (new_connection HTTPSConnection (Some h) (Some 443) None (cert_file cl)
                            (timeout cl))))"
proof -
  have uri: "get_uri cl r =
           Inr (effective_protocol cl r @ ''://'' @ h @ '':''
                  @ (if effective_protocol cl r = ''http'' then ''80'' else ''443'') @ path r)"
    using assms by (simp add: get_uri_def Let_def str_int_ports)
  have session: "kind c = RequestsConnection \<and> conn_host c = Some h \<and> conn_port c = None
                \<and> conn_protocol c = Some (effective_protocol cl r)"
    if "get_connection cl r = Inr c" "request_session cl \<noteq> None" for c
    using that assms
    by (auto simp: get_connection_def make_connection_def Let_def new_connection_def
        split: sum.splits if_splits option.splits)
  have native: "kind c = WinHTTPConnection \<and> conn_host c = Some h \<and> conn_port c = None
                \<and> conn_protocol c = Some (effective_protocol cl r)"
    if "get_connection cl r = Inr c" "request_session cl = None" "\<not> use_httplib cl" for c
    using that assms
    by (auto simp: get_connection_def make_connection_def Let_def new_connection_def
        split: sum.splits if_splits option.splits)
  have socket: "kind c = (if effective_protocol cl r = ''http''
                          then HTTPConnection else HTTPSConnection)
                \<and> (\<exists>target_host target_port.
                      (if CHR '':'' \<in> set h
                       then target_host = fst (rpartition_chr CHR '':'' h)
                          \<and> int_of_string (snd (rpartition_chr CHR '':'' h)) = Some target_port
                       else target_host = h
                          \<and> target_port = (if effective_protocol cl r = ''http'' then 80 else 443))
                    \<and> (if truthy (proxy_host cl)
                       then \<exists>a. tunnel c = Some (target_host, target_port, a)
                       else conn_host c = Some target_host \<and> conn_port c = Some target_port))"
    if "get_connection cl r = Inr c" "request_session cl = None" "use_httplib cl" for c
    using that assms
    by (auto simp: get_connection_def make_connection_def Let_def effective_protocol_lower
        new_connection_def py_int_def HTTP_PORT_def HTTPS_PORT_def
        split: sum.splits if_splits prod.splits option.splits port_val.splits)
  have direct: "get_connection cl r =
               (if request_session cl \<noteq> None then
                  Inr (new_connection RequestsConnection (Some h) None
                         (Some (effective_protocol cl r)) None (timeout cl))
                else if \<not> use_httplib cl then
                  Inr (new_connection WinHTTPConnection (Some h) None
                         (Some (effective_protocol cl r)) (cert_file cl) (timeout cl))
                else if CHR '':'' \<in> set h then
                  (case int_of_string (snd (rpartition_chr CHR '':'' h)) of
                     None \<Rightarrow> Inl ValueError
                   | Some p \<Rightarrow>
                       if effective_protocol cl r = ''http''
                       then Inr (new_connection HTTPConnection
                                   (Some (fst (rpartition_chr CHR '':'' h))) (Some p)
                                   None None (timeout cl))
                       else Inr (new_connection HTTPSConnection
                                   (Some (fst (rpartition_chr CHR '':'' h))) (Some p)
                                   None (cert_file cl) (timeout cl)))
                else if effective_protocol cl r = ''http''
                then Inr (new_connection HTTPConnection (Some h) (Some 80) None None (timeout cl))
                else Inr (new_connection HTTPSConnection (Some h) (Some 443) None (cert_file cl)
                            (timeout cl)))"
    if "\<not> truthy (proxy_host cl)"
    using that assms
    by (auto simp: get_connection_def make_connection_def Let_def effective_protocol_lower
        py_int_def HTTP_PORT_def HTTPS_PORT_def
        split: prod.splits option.splits)
  have conn: "if request_session cl \<noteq> None then
                kind c = RequestsConnection \<and> conn_host c = Some h \<and> conn_port c = None
                \<and> conn_protocol c = Some (effective_protocol cl r)
              else if \<not> use_httplib cl then
                kind c = WinHTTPConnection \<and> conn_host c = Some h \<and> conn_port c = None
                \<and> conn_protocol c = Some (effective_protocol cl r)
              else
                kind c = (if effective_protocol cl r = ''http''
                          then HTTPConnection else HTTPSConnection)
                \<and> (\<exists>target_host target_port.
                      (if CHR '':'' \<in> set h
                       then target_host = fst (rpartition_chr CHR '':'' h)
                          \<and> int_of_string (snd (rpartition_chr CHR '':'' h)) = Some target_port
                       else target_host = h
                          \<and> target_port = (if effective_protocol cl r = ''http'' then 80 else 443))
                    \<and> (if truthy (proxy_host cl)
                       then \<exists>a. tunnel c = Some (target_host, target_port, a)
                       else conn_host c = Some target_host \<and> conn_port c = Some target_port))"
    if gc: "get_connection cl r = Inr c" for c
  proof (cases "request_session cl \<noteq> None")
    case True
    with session [OF gc] show ?thesis by simp
  next
    case False
    then have none: "request_session cl = None" by simp
    show ?thesis
    proof (cases "use_httplib cl")
      case True
      with socket [OF gc none] none show ?thesis by simp
    next
      case False
      with native [OF gc none] none show ?thesis by simp
    qed
  qed
  from uri conn direct show ?thesis by (intro conjI allI impI)
qed


theorem protocol_selects_port_witness:
  "host (demo_request ''host2'') = Some ''host2''
   \<and> host (demo_request ''host2:8080'') = Some ''host2:8080''
   \<and> effective_protocol ftp_client (demo_request ''host2'') = ''ftp''
   \<and> get_uri ftp_client (demo_request ''host2'') = Inr ''ftp://host2:443/a''
   \<and> get_connection ftp_client (demo_request ''host2'') =
       Inr (new_connection HTTPSConnection (Some ''host2'') (Some 443) None None 65)
   \<and> effective_protocol http_client (demo_request ''host2'') = ''http''
   \<and> get_uri http_client (demo_request ''host2'') = Inr ''http://host2:80/a''
   \<and> get_connection http_client (demo_request ''host2'') =
       Inr (new_connection HTTPConnection (Some ''host2'') (Some 80) None None 65)
   \<and> get_connection demo_client (demo_request ''host2:8080'') =
       Inr (new_connection HTTPSConnection (Some ''host2'') (Some 8080) None None 65)
   \<and> get_connection session_client (demo_request ''host2'') =
       Inr (new_connection RequestsConnection (Some ''host2'') None (Some ''ftp'') None 65)
   \<and> get_connection native_client (demo_request ''host2'') =
       Inr (new_connection WinHTTPConnection (Some ''host2'') None (Some ''ftp'') None 65)
   \<and> truthy (proxy_host proxy_client)
   \<and> get_connection proxy_client (demo_request ''host2:8080'') =
       Inr ((new_connection HTTPSConnection (Some ''proxy'') (Some 3128) None None 65)
              \<lparr>tunnel := Some (''host2'', 8080, None)\<rparr>)
   \<and> (\<exists>a. tunnel ((new_connection HTTPSConnection (Some ''proxy'') (Some 3128) None None 65)
              \<lparr>tunnel := Some (''host2'', 8080, None)\<rparr>) = Some (''host2'', 8080, a))"
proof -
  have h: "host (demo_request ''host2'') = Some ''host2''"
    and hp: "host (demo_request ''host2:8080'') = Some ''host2:8080''"
    by (simp_all add: demo_request_def)
  have pth: "path (demo_request ''host2'') = ''/a''"
    by (simp add: demo_request_def)
  have ep: "effective_protocol ftp_client (demo_request ''host2'') = ''ftp''"
    "effective_protocol http_client (demo_request ''host2'') = ''http''"
    "effective_protocol demo_client (demo_request ''host2:8080'') = ''https''"
    "effective_protocol session_client (demo_request ''host2'') = ''ftp''"
    "effective_protocol native_client (demo_request ''host2'') = ''ftp''"
    "effective_protocol proxy_client (demo_request ''host2:8080'') = ''https''"
    by code_simp+
  have cfg: "\<not> truthy (proxy_host ftp_client)" "request_session ftp_client = None"
    "use_httplib ftp_client" "cert_file ftp_client = None" "timeout ftp_client = 65"
    "\<not> truthy (proxy_host http_client)" "request_session http_client = None"
    "use_httplib http_client" "cert_file http_client = None" "timeout http_client = 65"
    "\<not> truthy (proxy_host demo_client)" "request_session demo_client = None"
    "use_httplib demo_client" "cert_file demo_client = None" "timeout demo_client = 65"
    "\<not> truthy (proxy_host session_client)" "request_session session_client = Some Session"
    "timeout session_client = 65"
    "\<not> truthy (proxy_host native_client)" "request_session native_client = None"
    "\<not> use_httplib native_client" "cert_file native_client = None"
    "timeout native_client = 65"
    "truthy (proxy_host proxy_client)" "request_session proxy_client = None"
    "use_httplib proxy_client"
    by code_simp+
  have strs: "CHR '':'' \<notin> set ''host2''" "CHR '':'' \<in> set ''host2:8080''"
    "rpartition_chr CHR '':'' ''host2:8080'' = (''host2'', ''8080'')"
    "int_of_string ''8080'' = Some 8080"
    by code_simp+
  have gcp: "get_connection proxy_client (demo_request ''host2:8080'') =
       Inr ((new_connection HTTPSConnection (Some ''proxy'') (Some 3128) None None 65)
              \<lparr>tunnel := Some (''host2'', 8080, None)\<rparr>)"
    by code_simp
  from protocol_selects_port [OF h, of ftp_client]
  have ftp: "get_uri ftp_client (demo_request ''host2'') = Inr ''ftp://host2:443/a''
     \<and> get_connection ftp_client (demo_request ''host2'') =
       Inr (new_connection HTTPSConnection (Some ''host2'') (Some 443) None None 65)"
    by (simp add: ep cfg strs pth)
  from protocol_selects_port [OF h, of http_client]
  have http: "get_uri http_client (demo_request ''host2'') = Inr ''http://host2:80/a''
     \<and> get_connection http_client (demo_request ''host2'') =
       Inr (new_connection HTTPConnection (Some ''host2'') (Some 80) None None 65)"
    by (simp add: ep cfg strs pth)
  from protocol_selects_port [OF hp, of demo_client]
  have port: "get_connection demo_client (demo_request ''host2:8080'') =
       Inr (new_connection HTTPSConnection (Some ''host2'') (Some 8080) None None 65)"
    by (simp add: ep cfg strs)
  from protocol_selects_port [OF h, of session_client]
  have session: "get_connection session_client (demo_request ''host2'') =
       Inr (new_connection RequestsConnection (Some ''host2'') None (Some ''ftp'') None 65)"
    by (simp add: ep cfg strs)
  from protocol_selects_port [OF h, of native_client]
  have native: "get_connection native_client (demo_request ''host2'') =
       Inr (new_connection WinHTTPConnection (Some ''host2'') None (Some ''ftp'') None 65)"
    by (simp add: ep cfg strs)
  from protocol_selects_port [OF hp, of proxy_client] gcp
  have tun: "\<exists>a. tunnel ((new_connection HTTPSConnection (Some ''proxy'') (Some 3128) None None 65)
              \<lparr>tunnel := Some (''host2'', 8080, None)\<rparr>) = Some (''host2'', 8080, a)"
    by (simp add: ep cfg strs)
  from h hp ep(1,2) ftp http port session native cfg(24) gcp tun show ?thesis
    by simp
qed

text \<open>
  Claim C10 as stated fails in two ways: a port written in the host replaces the port
  chosen from the protocol, and with a session \<open>get_connection\<close> chooses neither a port
  nor an HTTPS class but hands the protocol on as it is.
\<close>

theorem explicit_host_port_overrides:
  "effective_protocol demo_client (demo_request ''host2:8080'') = ''https''
   \<and> get_connection demo_client (demo_request ''host2:8080'') =
       Inr ((demo_connection ''host2'')\<lparr>conn_port := Some 8080\<rparr>)
   \<and> effective_protocol session_client (demo_request ''host2'') = ''ftp''
   \<and> get_connection session_client (demo_request ''host2'') =
       Inr (new_connection RequestsConnection (Some ''host2'') None (Some ''ftp'') None 65)"
  by code_simp

end
